theory Spec2Isabelle
  imports Main
begin

section \<open>Python values as the plugin observes them\<close>

text \<open>
  The plugin \<^verbatim>\<open>src/plugins/chat_logger.py\<close> probes its inputs dynamically
  (\<^verbatim>\<open>hasattr\<close>, \<^verbatim>\<open>isinstance(_, str)\<close>, iteration, \<^verbatim>\<open>str()\<close>, truthiness).
  A value is therefore modelled by exactly what those probes can see:
  \<^item> \<open>PyNone\<close>, \<open>PyInt\<close> and \<open>PyStr\<close> are the built-in \<^verbatim>\<open>None\<close>, \<^verbatim>\<open>int\<close> and
    \<^verbatim>\<open>str\<close>;
  \<^item> \<open>PyObj r attrs items\<close> is an object whose class gives it no truth value and no
    \<^verbatim>\<open>strip\<close> method of its own: \<open>r\<close> is what \<^verbatim>\<open>str()\<close> returns for it, \<open>attrs\<close> are
    its data attributes, and \<open>items\<close> are the elements it holds (\<open>None\<close> when it is not
    iterable). It is a plain object, which is truthy, or a sized container such as a
    list, a tuple or a dictionary, which is falsy exactly when it is empty. A Python
    list is a \<open>PyObj\<close> without attributes and with \<open>Some\<close> items;
  \<^item> \<open>PyOther r truth stripped attrs items\<close> is any other value (a \<^verbatim>\<open>bool\<close>, a
    \<^verbatim>\<open>float\<close>, \<^verbatim>\<open>bytes\<close>, an iterator, an instance of a class with \<^verbatim>\<open>__bool__\<close> or
    with a \<^verbatim>\<open>strip\<close> method): \<open>truth\<close> is what \<^verbatim>\<open>bool()\<close> returns for it, and
    \<open>stripped\<close> is \<open>None\<close> when it has no \<^verbatim>\<open>strip\<close> method, else the truth value of
    what its \<^verbatim>\<open>strip()\<close> returns. So \<^verbatim>\<open>0.0\<close> is \<open>PyOther ''0.0'' False None [] None\<close>, and
    an exhausted iterator is truthy and has \<open>Some []\<close> as items.
  Only a \<^verbatim>\<open>str\<close> can be appended to a \<^verbatim>\<open>str\<close>, and only the \<^verbatim>\<open>str\<close> \<^verbatim>\<open>'group'\<close> equals
  \<^verbatim>\<open>'group'\<close>: classes that overload \<^verbatim>\<open>+\<close> or \<^verbatim>\<open>==\<close> against \<^verbatim>\<open>str\<close>, and subclasses of
  \<^verbatim>\<open>str\<close> with attributes of their own, are left out.
  Strings are lists of 8-bit characters, read as the code points below 256.
\<close>

datatype pyval =
    PyNone
  | PyInt int
  | PyStr string
  | PyObj string "(string \<times> pyval) list" "pyval list option"
  | PyOther string bool "bool option" "(string \<times> pyval) list" "pyval list option"

datatype py_exn =
    TypeError
  | AttributeError
  | BackendError string

subsection \<open>\<^verbatim>\<open>str()\<close>\<close>

definition digit_char :: "nat \<Rightarrow> char" where
  "digit_char n = ''0123456789'' ! n"

fun nat_digits :: "nat \<Rightarrow> string" where
  "nat_digits n =
     (if n < 10 then [digit_char n]
      else nat_digits (n div 10) @ [digit_char (n mod 10)])"

declare nat_digits.simps [simp del]

definition int_str :: "int \<Rightarrow> string" where
  "int_str i = (if i < 0 then CHR ''-'' # nat_digits (nat (- i)) else nat_digits (nat i))"

fun py_str :: "pyval \<Rightarrow> string" where
  "py_str PyNone = ''None''"
| "py_str (PyInt i) = int_str i"
| "py_str (PyStr s) = s"
| "py_str (PyObj r attrs items) = r"
| "py_str (PyOther r truth stripped attrs items) = r"

subsection \<open>\<^verbatim>\<open>hasattr\<close>, attribute access, iteration, truthiness\<close>

fun py_getattr :: "pyval \<Rightarrow> string \<Rightarrow> pyval option" where
  "py_getattr (PyObj r attrs items) name = map_of attrs name"
| "py_getattr (PyOther r truth stripped attrs items) name = map_of attrs name"
| "py_getattr PyNone name = None"
| "py_getattr (PyInt i) name = None"
| "py_getattr (PyStr s) name = None"

text \<open>
  \<^verbatim>\<open>hasattr(v, name)\<close> holds when the lookup finds a value, which may be \<^verbatim>\<open>None\<close>.
  Where the plugin tests \<^verbatim>\<open>hasattr\<close> and then reads the attribute, the model takes
  the cases of \<open>py_getattr\<close>.
\<close>

definition py_hasattr :: "pyval \<Rightarrow> string \<Rightarrow> bool" where
  "py_hasattr v name = (case py_getattr v name of None \<Rightarrow> False | Some a \<Rightarrow> True)"

text \<open>Iterating a \<^verbatim>\<open>str\<close> yields its characters, each a \<^verbatim>\<open>str\<close> of length one.\<close>

fun py_iter :: "pyval \<Rightarrow> pyval list option" where
  "py_iter (PyStr s) = Some (map (\<lambda>c. PyStr [c]) s)"
| "py_iter (PyObj r attrs items) = items"
| "py_iter (PyOther r truth stripped attrs items) = items"
| "py_iter PyNone = None"
| "py_iter (PyInt i) = None"

fun py_truthy :: "pyval \<Rightarrow> bool" where
  "py_truthy PyNone = False"
| "py_truthy (PyInt i) = (i \<noteq> 0)"
| "py_truthy (PyStr s) = (s \<noteq> [])"
| "py_truthy (PyObj r attrs None) = True"
| "py_truthy (PyObj r attrs (Some xs)) = (xs \<noteq> [])"
| "py_truthy (PyOther r truth stripped attrs items) = truth"

subsection \<open>\<^verbatim>\<open>str.strip()\<close>\<close>

text \<open>
  \<^verbatim>\<open>str.strip()\<close> without arguments removes leading and trailing whitespace as
  \<^verbatim>\<open>str.isspace\<close> sees it; below code point 256 that is 9 to 13, 28 to 32, 133 and 160.
\<close>

definition is_space :: "char \<Rightarrow> bool" where
  "is_space c = (of_char c \<in> set [9, 10, 11, 12, 13, 28, 29, 30, 31, 32, 133, 160 :: nat])"

definition py_strip :: "string \<Rightarrow> string" where
  "py_strip s = rev (dropWhile is_space (rev (dropWhile is_space s)))"

text \<open>
  The test \<^verbatim>\<open>v.strip()\<close> of lines 182 and 234, on any value: the truth value of
  what \<^verbatim>\<open>strip()\<close> returns. A value without a \<^verbatim>\<open>strip\<close> attribute raises an
  \<^verbatim>\<open>AttributeError\<close>; one whose \<^verbatim>\<open>strip\<close> is a data attribute raises a \<^verbatim>\<open>TypeError\<close>,
  since that cannot be called.
\<close>

definition no_strip_method :: "(string \<times> pyval) list \<Rightarrow> py_exn" where
  "no_strip_method attrs =
     (case map_of attrs ''strip'' of None \<Rightarrow> AttributeError | Some a \<Rightarrow> TypeError)"

fun strip_nonempty :: "pyval \<Rightarrow> py_exn + bool" where
  "strip_nonempty (PyStr t) = Inr (py_strip t \<noteq> [])"
| "strip_nonempty PyNone = Inl AttributeError"
| "strip_nonempty (PyInt i) = Inl AttributeError"
| "strip_nonempty (PyObj r attrs items) = Inl (no_strip_method attrs)"
| "strip_nonempty (PyOther r truth (Some b) attrs items) = Inr b"
| "strip_nonempty (PyOther r truth None attrs items) = Inl (no_strip_method attrs)"

section \<open>The plugin's state and its environment\<close>

text \<open>
  A row of \<^verbatim>\<open>chat_records\<close> as \<^verbatim>\<open>_save_chat_record\<close> builds it. The
  autoincrement \<^verbatim>\<open>id\<close> is the store's: rows are kept in insertion order and the
  position stands for it. \<^verbatim>\<open>nickname\<close> and \<^verbatim>\<open>message\<close> are passed on as received,
  so they stay a \<open>pyval\<close>; \<^verbatim>\<open>user_id\<close> and \<^verbatim>\<open>group_id\<close> go through \<^verbatim>\<open>str()\<close>.
\<close>

record chat_record =
  user_id :: string
  nickname :: pyval
  message :: pyval
  group_id :: string
  is_bot_message :: bool
  timestamp :: nat

datatype level = DEBUG | INFO | WARNING | ERROR

text \<open>
  A log call: its level, the fixed part of its message and the exception it
  formats, if any (interpolated values other than the exception are left out).
\<close>

datatype log_entry = Log level string "py_exn option"

text \<open>
  The fields of \<^verbatim>\<open>ChatLoggerPlugin\<close> set by \<^verbatim>\<open>__init__\<close>, with the parts of the
  environment the plugin acts on: the rows of the table, the log, and how often
  \<^verbatim>\<open>engine.dispose()\<close> has been called. An engine and a session factory are
  identified by the URL they were created for.
\<close>

record plugin =
  engine :: "string option"
  session_factory :: "string option"
  database_url :: string
  database_name :: string
  include_bot_messages :: bool
  group_whitelist :: "string list"
  group_blacklist :: "string list"
  table :: "chat_record list"
  logged :: "log_entry list"
  dispose_calls :: nat

definition init_plugin :: plugin where
  "init_plugin =
     \<lparr> engine = None, session_factory = None,
       database_url = ''sqlite+aiosqlite:///./chat_logs.db'',
       database_name = ''langbot_chat'',
       include_bot_messages = True,
       group_whitelist = [], group_blacklist = [],
       table = [], logged = [], dispose_calls = 0 \<rparr>"

definition log_to :: "plugin \<Rightarrow> level \<Rightarrow> string \<Rightarrow> py_exn option \<Rightarrow> plugin" where
  "log_to s lv msg e = s\<lparr>logged := logged s @ [Log lv msg e]\<rparr>"

section \<open>\<^verbatim>\<open>_should_log_group\<close>\<close>

definition should_log_group :: "plugin \<Rightarrow> pyval \<Rightarrow> bool" where
  "should_log_group s gid =
     (let group_id_str = py_str gid in
      if group_whitelist s \<noteq> [] \<and> group_id_str \<notin> set (group_whitelist s) then False
      else if group_id_str \<in> set (group_blacklist s) then False
      else True)"

text \<open>
  The decision procedure as the specification words it, over a policy of two
  sets of canonical ids.
\<close>

definition shouldRecord :: "string \<Rightarrow> string set \<Rightarrow> string set \<Rightarrow> bool" where
  "shouldRecord g whitelist blacklist =
     (if whitelist \<noteq> {} \<and> g \<notin> whitelist then False
      else if g \<in> blacklist then False
      else True)"

section \<open>Events, as the host delivers them\<close>

text \<open>
  \<^verbatim>\<open>GroupMessageReceived\<close> and \<^verbatim>\<open>NormalMessageResponded\<close> are classes of the host
  (\<^verbatim>\<open>pkg.plugin.events\<close>); the handlers read the attributes below. The attribute
  \<^verbatim>\<open>sender_name\<close> is probed with \<^verbatim>\<open>hasattr\<close>, so it is optional here; every other
  attribute is read unconditionally and holds an arbitrary value.
\<close>

record group_message_received =
  gm_launcher_id :: pyval
  gm_sender_id :: pyval
  gm_message_chain :: pyval
  gm_sender_name :: "pyval option"
  gm_query :: pyval

record normal_message_responded =
  nr_launcher_type :: pyval
  nr_launcher_id :: pyval
  nr_prefix :: pyval
  nr_response_text :: pyval
  nr_query :: pyval

text \<open>
  What the environment answers during one call of \<^verbatim>\<open>_save_chat_record\<close>: the
  exception raised by the session (opening it, adding the row or committing), if
  any, and the clock read by \<^verbatim>\<open>datetime.utcnow()\<close>.
\<close>

record save_env =
  commit_result :: "py_exn option"
  utcnow :: nat

section \<open>Message text extraction (lines 161 to 179)\<close>

text \<open>\<^verbatim>\<open>message_text += v\<close> on a \<^verbatim>\<open>str\<close>: a \<^verbatim>\<open>TypeError\<close> unless \<open>v\<close> is a \<^verbatim>\<open>str\<close>.\<close>

fun str_iadd :: "string \<Rightarrow> pyval \<Rightarrow> py_exn + string" where
  "str_iadd message_text (PyStr t) = Inr (message_text @ t)"
| "str_iadd message_text PyNone = Inl TypeError"
| "str_iadd message_text (PyInt i) = Inl TypeError"
| "str_iadd message_text (PyObj r attrs items) = Inl TypeError"
| "str_iadd message_text (PyOther r truth stripped attrs items) = Inl TypeError"

text \<open>The body of the loop over \<^verbatim>\<open>message_chain.messages\<close> (lines 165 to 170).\<close>

definition add_msg :: "string \<Rightarrow> pyval \<Rightarrow> py_exn + string" where
  "add_msg message_text msg =
     (case py_getattr msg ''text'' of
        Some t \<Rightarrow> str_iadd message_text t
      | None \<Rightarrow>
          (case py_getattr msg ''content'' of
             Some (PyStr c) \<Rightarrow> Inr (message_text @ c)
           | _ \<Rightarrow>
               (case msg of
                  PyStr m \<Rightarrow> Inr (message_text @ m)
                | _ \<Rightarrow> Inr message_text)))"

fun concat_msgs :: "string \<Rightarrow> pyval list \<Rightarrow> py_exn + string" where
  "concat_msgs message_text [] = Inr message_text"
| "concat_msgs message_text (msg # msgs) =
     (case add_msg message_text msg of
        Inl e \<Rightarrow> Inl e
      | Inr message_text' \<Rightarrow> concat_msgs message_text' msgs)"

definition extract_message_text :: "pyval \<Rightarrow> py_exn + pyval" where
  "extract_message_text message_chain =
     (case py_getattr message_chain ''messages'' of
        Some messages \<Rightarrow>
          (case py_iter messages of
             None \<Rightarrow> Inl TypeError
           | Some msgs \<Rightarrow>
               (case concat_msgs [] msgs of
                  Inl e \<Rightarrow> Inl e
                | Inr message_text \<Rightarrow> Inr (PyStr message_text)))
      | None \<Rightarrow>
          (case py_getattr message_chain ''text'' of
             Some t \<Rightarrow> Inr t
           | None \<Rightarrow>
               (case message_chain of
                  PyStr s \<Rightarrow> Inr (PyStr s)
                | _ \<Rightarrow> Inr (PyStr (py_str message_chain)))))"

text \<open>
  The contribution of a sub-part as the specification words it: its text field if
  it has one, else its content field if that content is a string, else the sub-part
  itself if it is a plain string, else nothing.
\<close>

definition contribution :: "pyval \<Rightarrow> pyval option" where
  "contribution part =
     (case py_getattr part ''text'' of
        Some t \<Rightarrow> Some t
      | None \<Rightarrow>
          (case py_getattr part ''content'' of
             Some (PyStr c) \<Rightarrow> Some (PyStr c)
           | _ \<Rightarrow> (case part of PyStr m \<Rightarrow> Some (PyStr m) | _ \<Rightarrow> None)))"

text \<open>A contribution is text or nothing; nothing adds the empty text.\<close>

fun text_or_nothing :: "pyval option \<Rightarrow> bool" where
  "text_or_nothing None = True"
| "text_or_nothing (Some (PyStr t)) = True"
| "text_or_nothing (Some PyNone) = False"
| "text_or_nothing (Some (PyInt i)) = False"
| "text_or_nothing (Some (PyObj r attrs items)) = False"
| "text_or_nothing (Some (PyOther r truth stripped attrs items)) = False"

fun text_of :: "pyval option \<Rightarrow> string" where
  "text_of (Some (PyStr t)) = t"
| "text_of None = []"
| "text_of (Some PyNone) = []"
| "text_of (Some (PyInt i)) = []"
| "text_of (Some (PyObj r attrs items)) = []"
| "text_of (Some (PyOther r truth stripped attrs items)) = []"

section \<open>\<^verbatim>\<open>_save_chat_record\<close>\<close>

definition save_chat_record ::
  "plugin \<Rightarrow> save_env \<Rightarrow> pyval \<Rightarrow> pyval \<Rightarrow> pyval \<Rightarrow> pyval \<Rightarrow> bool \<Rightarrow> plugin" where
  "save_chat_record s env uid nick msg gid is_bot =
     (case session_factory s of
        None \<Rightarrow> log_to s WARNING ''Database not initialized, skipping record save'' None
      | Some factory \<Rightarrow>
          (case commit_result env of
             Some e \<Rightarrow> log_to s ERROR ''Failed to save chat record: '' (Some e)
           | None \<Rightarrow>
               log_to
                 (s\<lparr>table := table s @
                      [\<lparr> user_id = py_str uid, nickname = nick, message = msg,
                         group_id = py_str gid, is_bot_message = is_bot,
                         timestamp = utcnow env \<rparr>]\<rparr>)
                 DEBUG ''Saved chat record from user '' None))"

section \<open>\<^verbatim>\<open>on_group_message_received\<close>\<close>

text \<open>The nickname lookup of lines 186 to 194.\<close>

definition get_nickname :: "group_message_received \<Rightarrow> pyval" where
  "get_nickname event =
     (case gm_sender_name event of
        Some n \<Rightarrow> n
      | None \<Rightarrow>
          (case py_getattr (gm_query event) ''message_event'' of
             None \<Rightarrow> PyNone
           | Some message_event \<Rightarrow>
               (case py_getattr message_event ''sender'' of
                  None \<Rightarrow> PyNone
                | Some sender \<Rightarrow>
                    (case py_getattr sender ''nickname'' of
                       Some n \<Rightarrow> n
                     | None \<Rightarrow>
                         (case py_getattr sender ''card'' of
                            Some c \<Rightarrow> c
                          | None \<Rightarrow> PyNone)))))"

text \<open>
  The body of the \<^verbatim>\<open>try\<close> block: \<open>Inl e\<close> when it raises \<open>e\<close>. The emptiness test of
  line 182 calls \<^verbatim>\<open>strip()\<close> on whatever was extracted, and the value extracted is
  the one handed to \<^verbatim>\<open>_save_chat_record\<close>.
\<close>

definition group_message_body ::
  "plugin \<Rightarrow> group_message_received \<Rightarrow> save_env \<Rightarrow> py_exn + plugin" where
  "group_message_body s event env =
     (if \<not> should_log_group s (gm_launcher_id event) then Inr s
      else
        (case extract_message_text (gm_message_chain event) of
           Inl e \<Rightarrow> Inl e
         | Inr message_text \<Rightarrow>
             (case strip_nonempty message_text of
                Inl e \<Rightarrow> Inl e
              | Inr nonempty \<Rightarrow>
                  if \<not> nonempty then Inr s
                  else Inr (save_chat_record s env (gm_sender_id event) (get_nickname event)
                              message_text (gm_launcher_id event) False))))"

text \<open>
  A handler returns the exception that leaves it, if any, and the state it leaves
  behind.
\<close>

definition on_group_message_received ::
  "plugin \<Rightarrow> group_message_received \<Rightarrow> save_env \<Rightarrow> py_exn option \<times> plugin" where
  "on_group_message_received s event env =
     (case group_message_body s event env of
        Inr s' \<Rightarrow> (None, s')
      | Inl e \<Rightarrow> (None, log_to s ERROR ''Error handling group message: '' (Some e)))"

section \<open>\<^verbatim>\<open>on_normal_message_responded\<close>\<close>

definition get_bot_user_id :: "pyval \<Rightarrow> pyval" where
  "get_bot_user_id query =
     (case py_getattr query ''adapter'' of
        None \<Rightarrow> PyStr ''bot''
      | Some adapter \<Rightarrow>
          (case py_getattr adapter ''bot_account_id'' of
             None \<Rightarrow> PyStr ''bot''
           | Some bot_account_id \<Rightarrow> bot_account_id))"

text \<open>Lines 227 to 231: \<^verbatim>\<open>if v: full_response += v\<close>.\<close>

definition add_if_truthy :: "string \<Rightarrow> pyval \<Rightarrow> py_exn + string" where
  "add_if_truthy full_response v =
     (if py_truthy v then str_iadd full_response v else Inr full_response)"

definition build_full_response :: "normal_message_responded \<Rightarrow> py_exn + string" where
  "build_full_response event =
     (case add_if_truthy [] (nr_prefix event) of
        Inl e \<Rightarrow> Inl e
      | Inr full_response \<Rightarrow> add_if_truthy full_response (nr_response_text event))"

definition normal_message_body ::
  "plugin \<Rightarrow> normal_message_responded \<Rightarrow> save_env \<Rightarrow> py_exn + plugin" where
  "normal_message_body s event env =
     (if \<not> include_bot_messages s then Inr s
      else if nr_launcher_type event \<noteq> PyStr ''group'' then Inr s
      else if \<not> should_log_group s (nr_launcher_id event) then Inr s
      else
        (case build_full_response event of
           Inl e \<Rightarrow> Inl e
         | Inr full_response \<Rightarrow>
             if py_strip full_response = [] then Inr s
             else Inr (save_chat_record s env (get_bot_user_id (nr_query event))
                         (PyStr ''LangBot'') (PyStr full_response) (nr_launcher_id event)
                         True)))"

definition on_normal_message_responded ::
  "plugin \<Rightarrow> normal_message_responded \<Rightarrow> save_env \<Rightarrow> py_exn option \<times> plugin" where
  "on_normal_message_responded s event env =
     (case normal_message_body s event env of
        Inr s' \<Rightarrow> (None, s')
      | Inl e \<Rightarrow> (None, log_to s ERROR ''Error handling bot response: '' (Some e)))"

section \<open>\<^verbatim>\<open>initialize\<close>, \<^verbatim>\<open>_init_database\<close> and \<^verbatim>\<open>destroy\<close>\<close>

text \<open>
  The configuration dictionary: a key that is absent is \<open>None\<close>, and
  \<^verbatim>\<open>config.get(key, default)\<close> then keeps the field's current value.
\<close>

record config =
  cfg_database_url :: "string option"
  cfg_database_name :: "string option"
  cfg_include_bot_messages :: "bool option"
  cfg_group_whitelist :: "string list option"
  cfg_group_blacklist :: "string list option"

text \<open>
  What the backend answers during initialization: the exception raised by
  \<^verbatim>\<open>create_async_engine\<close>, if any, and the one raised inside the block
  \<^verbatim>\<open>async with self.engine.begin()\<close>, which connects and creates the tables.
\<close>

record init_env =
  create_engine_result :: "py_exn option"
  create_all_result :: "py_exn option"

definition load_config :: "plugin \<Rightarrow> config \<Rightarrow> plugin" where
  "load_config s cfg =
     s\<lparr> database_url := (case cfg_database_url cfg of None \<Rightarrow> database_url s | Some v \<Rightarrow> v),
        database_name := (case cfg_database_name cfg of None \<Rightarrow> database_name s | Some v \<Rightarrow> v),
        include_bot_messages :=
          (case cfg_include_bot_messages cfg of None \<Rightarrow> include_bot_messages s | Some v \<Rightarrow> v),
        group_whitelist :=
          (case cfg_group_whitelist cfg of None \<Rightarrow> group_whitelist s | Some v \<Rightarrow> v),
        group_blacklist :=
          (case cfg_group_blacklist cfg of None \<Rightarrow> group_blacklist s | Some v \<Rightarrow> v) \<rparr>"

definition init_database :: "plugin \<Rightarrow> init_env \<Rightarrow> py_exn option \<times> plugin" where
  "init_database s env =
     (case create_engine_result env of
        Some e \<Rightarrow> (Some e, log_to s ERROR ''Database initialization failed: '' (Some e))
      | None \<Rightarrow>
          (let s1 = s\<lparr>engine := Some (database_url s),
                      session_factory := Some (database_url s)\<rparr> in
           case create_all_result env of
             Some e \<Rightarrow> (Some e, log_to s1 ERROR ''Database initialization failed: '' (Some e))
           | None \<Rightarrow> (None, log_to s1 INFO ''Database tables created successfully'' None)))"

definition initialize :: "plugin \<Rightarrow> config \<Rightarrow> init_env \<Rightarrow> py_exn option \<times> plugin" where
  "initialize s cfg env =
     (case init_database (load_config s cfg) env of
        (Some e, s') \<Rightarrow>
          (Some e, log_to s' ERROR ''Failed to initialize Chat Logger Plugin: '' (Some e))
      | (None, s') \<Rightarrow>
          (None,
           log_to
             (log_to
                (log_to
                   (log_to s' INFO ''Chat Logger Plugin initialized with database: '' None)
                   INFO ''Group whitelist: '' None)
                INFO ''Group blacklist: '' None)
             INFO ''Include bot messages: '' None))"

text \<open>
  \<^verbatim>\<open>destroy\<close>; its argument is the exception \<^verbatim>\<open>engine.dispose()\<close> raises, if any.
  \<open>dispose_calls\<close> counts the calls of \<^verbatim>\<open>dispose\<close>, whatever they answer.
\<close>

definition destroy :: "plugin \<Rightarrow> py_exn option \<Rightarrow> py_exn option \<times> plugin" where
  "destroy s dispose_result =
     (case engine s of
        None \<Rightarrow> (None, s)
      | Some e \<Rightarrow>
          (let s1 = s\<lparr>dispose_calls := Suc (dispose_calls s)\<rparr> in
           case dispose_result of
             None \<Rightarrow> (None, log_to s1 INFO ''Database connection closed'' None)
           | Some ex \<Rightarrow> (None, log_to s1 ERROR ''Error during plugin cleanup: '' (Some ex))))"

section \<open>Sequences of calls\<close>

datatype action =
    Initialize config init_env
  | GroupMessage group_message_received save_env
  | BotResponse normal_message_responded save_env
  | Destroy "py_exn option"

fun step :: "plugin \<Rightarrow> action \<Rightarrow> py_exn option \<times> plugin" where
  "step s (Initialize cfg env) = initialize s cfg env"
| "step s (GroupMessage event env) = on_group_message_received s event env"
| "step s (BotResponse event env) = on_normal_message_responded s event env"
| "step s (Destroy dispose_result) = destroy s dispose_result"

text \<open>The host goes on calling the plugin whatever a call raised.\<close>

fun run :: "plugin \<Rightarrow> action list \<Rightarrow> plugin" where
  "run s [] = s"
| "run s (a # as) = run (snd (step s a)) as"

section \<open>Group filter\<close>

lemma should_log_group_iff:
  "should_log_group s gid \<longleftrightarrow>
     (group_whitelist s = [] \<or> py_str gid \<in> set (group_whitelist s)) \<and>
     py_str gid \<notin> set (group_blacklist s)"
  by (auto simp: should_log_group_def Let_def)

text \<open>
  C1. The eligibility decision of \<^verbatim>\<open>_should_log_group\<close> is the specified procedure
  applied to the string form of the group id and the two configured lists read as
  sets; with both lists empty every group is eligible; and a group whose string
  form is in both the whitelist and the blacklist is not eligible.
\<close>

theorem should_log_group_procedure:
  "should_log_group s gid =
     shouldRecord (py_str gid) (set (group_whitelist s)) (set (group_blacklist s))
   \<and> should_log_group (s\<lparr>group_whitelist := [], group_blacklist := []\<rparr>) gid
   \<and> (py_str gid \<in> set (group_whitelist s) \<and> py_str gid \<in> set (group_blacklist s)
        \<longrightarrow> \<not> should_log_group s gid)"
  by (auto simp: should_log_group_def shouldRecord_def Let_def)

theorem should_log_group_procedure_witness:
  "\<not> should_log_group (init_plugin\<lparr>group_whitelist := [''A''], group_blacklist := [''A'']\<rparr>)
       (PyStr ''A'')
   \<and> should_log_group (init_plugin\<lparr>group_whitelist := [], group_blacklist := []\<rparr>) (PyInt 42)
   \<and> \<not> shouldRecord ''A'' {''A''} {''A''}"
proof -
  let ?s = "init_plugin\<lparr>group_whitelist := [''A''], group_blacklist := [''A'']\<rparr>"
  note th = should_log_group_procedure [of ?s "PyStr ''A''"]
  have m: "py_str (PyStr ''A'') \<in> set (group_whitelist ?s) \<and>
           py_str (PyStr ''A'') \<in> set (group_blacklist ?s)"
    by simp
  have a: "\<not> should_log_group ?s (PyStr ''A'')"
    using th m by blast
  have e: "should_log_group ?s (PyStr ''A'') = shouldRecord ''A'' {''A''} {''A''}"
    using th [THEN conjunct1] by simp
  have c: "should_log_group (init_plugin\<lparr>group_whitelist := [], group_blacklist := []\<rparr>) (PyInt 42)"
    using should_log_group_procedure [of init_plugin "PyInt 42"] by blast
  show ?thesis using a e c by simp
qed

section \<open>Facts about the store and the handlers\<close>

lemma all_dropWhile_iff: "(\<forall>x\<in>set (dropWhile P s). P x) \<longleftrightarrow> (\<forall>x\<in>set s. P x)"
proof
  assume a: "\<forall>x\<in>set (dropWhile P s). P x"
  have "dropWhile P s = []"
  proof (rule ccontr)
    assume n: "dropWhile P s \<noteq> []"
    then have "\<not> P (hd (dropWhile P s))" by (rule hd_dropWhile)
    moreover have "hd (dropWhile P s) \<in> set (dropWhile P s)" using n by simp
    ultimately show False using a by blast
  qed
  then show "\<forall>x\<in>set s. P x" by simp
next
  assume "\<forall>x\<in>set s. P x"
  then show "\<forall>x\<in>set (dropWhile P s). P x" by (meson set_dropWhileD)
qed

lemma py_strip_Nil_iff: "py_strip s = [] \<longleftrightarrow> list_all is_space s"
  by (simp add: py_strip_def list_all_iff all_dropWhile_iff)

lemma table_log_to [simp]: "table (log_to s lv msg e) = table s"
  by (simp add: log_to_def)

lemma session_factory_log_to [simp]: "session_factory (log_to s lv msg e) = session_factory s"
  by (simp add: log_to_def)

lemma engine_log_to [simp]: "engine (log_to s lv msg e) = engine s"
  by (simp add: log_to_def)

lemma table_save_chat_record:
  "table (save_chat_record s env uid nick msg gid is_bot) =
     (if session_factory s \<noteq> None \<and> commit_result env = None
      then table s @ [\<lparr> user_id = py_str uid, nickname = nick, message = msg,
                         group_id = py_str gid, is_bot_message = is_bot,
                         timestamp = utcnow env \<rparr>]
      else table s)"
  by (simp add: save_chat_record_def split: option.splits)

lemma table_on_group_message_received:
  "table (snd (on_group_message_received s event env)) =
     (case extract_message_text (gm_message_chain event) of
        Inr message_text \<Rightarrow>
          if should_log_group s (gm_launcher_id event) \<and>
             strip_nonempty message_text = Inr True \<and>
             session_factory s \<noteq> None \<and> commit_result env = None
          then table s @
                 [\<lparr> user_id = py_str (gm_sender_id event), nickname = get_nickname event,
                    message = message_text, group_id = py_str (gm_launcher_id event),
                    is_bot_message = False, timestamp = utcnow env \<rparr>]
          else table s
      | Inl e \<Rightarrow> table s)"
  by (auto simp: on_group_message_received_def group_message_body_def table_save_chat_record
      split: sum.splits)

lemma table_on_normal_message_responded:
  "table (snd (on_normal_message_responded s event env)) =
     (case build_full_response event of
        Inr full_response \<Rightarrow>
          if include_bot_messages s \<and> nr_launcher_type event = PyStr ''group'' \<and>
             should_log_group s (nr_launcher_id event) \<and> py_strip full_response \<noteq> [] \<and>
             session_factory s \<noteq> None \<and> commit_result env = None
          then table s @
                 [\<lparr> user_id = py_str (get_bot_user_id (nr_query event)),
                    nickname = PyStr ''LangBot'', message = PyStr full_response,
                    group_id = py_str (nr_launcher_id event),
                    is_bot_message = True, timestamp = utcnow env \<rparr>]
          else table s
      | Inl e \<Rightarrow> table s)"
  by (simp add: on_normal_message_responded_def normal_message_body_def table_save_chat_record
      split: sum.splits)

lemma strip_nonempty_str_iff:
  "strip_nonempty (PyStr t) = Inr (t \<noteq> [] \<and> \<not> list_all is_space t)"
  by (auto simp: py_strip_Nil_iff)

lemma get_nickname_lookup:
  "gm_sender_name event = Some n \<Longrightarrow> get_nickname event = n"
  "gm_sender_name event = None \<Longrightarrow>
     py_getattr (gm_query event) ''message_event'' = None \<Longrightarrow> get_nickname event = PyNone"
  "gm_sender_name event = None \<Longrightarrow>
     py_getattr (gm_query event) ''message_event'' = Some message_event \<Longrightarrow>
     py_getattr message_event ''sender'' = None \<Longrightarrow> get_nickname event = PyNone"
  "gm_sender_name event = None \<Longrightarrow>
     py_getattr (gm_query event) ''message_event'' = Some message_event \<Longrightarrow>
     py_getattr message_event ''sender'' = Some sender \<Longrightarrow>
     py_getattr sender ''nickname'' = Some n \<Longrightarrow> get_nickname event = n"
  "gm_sender_name event = None \<Longrightarrow>
     py_getattr (gm_query event) ''message_event'' = Some message_event \<Longrightarrow>
     py_getattr message_event ''sender'' = Some sender \<Longrightarrow>
     py_getattr sender ''nickname'' = None \<Longrightarrow>
     py_getattr sender ''card'' = Some c \<Longrightarrow> get_nickname event = c"
  "gm_sender_name event = None \<Longrightarrow>
     py_getattr (gm_query event) ''message_event'' = Some message_event \<Longrightarrow>
     py_getattr message_event ''sender'' = Some sender \<Longrightarrow>
     py_getattr sender ''nickname'' = None \<Longrightarrow>
     py_getattr sender ''card'' = None \<Longrightarrow> get_nickname event = PyNone"
  by (simp_all add: get_nickname_def)

lemma fst_on_group [simp]: "fst (on_group_message_received s event env) = None"
  by (simp add: on_group_message_received_def split: sum.splits)

lemma fst_on_normal [simp]: "fst (on_normal_message_responded s event env) = None"
  by (simp add: on_normal_message_responded_def split: sum.splits)

lemma fst_destroy [simp]: "fst (destroy s d) = None"
  by (simp add: destroy_def Let_def split: option.splits)


text \<open>A plugin initialized without failure, and two sample evaluations.\<close>

lemma ready_plugin:
  "snd (initialize init_plugin
          \<lparr> cfg_database_url = None, cfg_database_name = None,
            cfg_include_bot_messages = None, cfg_group_whitelist = w,
            cfg_group_blacklist = None \<rparr>
          \<lparr> create_engine_result = None, create_all_result = None \<rparr>) =
   \<lparr> engine = Some ''sqlite+aiosqlite:///./chat_logs.db'',
     session_factory = Some ''sqlite+aiosqlite:///./chat_logs.db'',
     database_url = ''sqlite+aiosqlite:///./chat_logs.db'',
     database_name = ''langbot_chat'',
     include_bot_messages = True,
     group_whitelist = (case w of None \<Rightarrow> [] | Some v \<Rightarrow> v),
     group_blacklist = [],
     table = [],
     logged =
       [Log INFO ''Database tables created successfully'' None,
        Log INFO ''Chat Logger Plugin initialized with database: '' None,
        Log INFO ''Group whitelist: '' None,
        Log INFO ''Group blacklist: '' None,
        Log INFO ''Include bot messages: '' None],
     dispose_calls = 0 \<rparr>"
  by (simp add: initialize_def init_database_def load_config_def log_to_def init_plugin_def
      split: option.splits)

lemma half_initialized_plugin:
  "initialize init_plugin
     \<lparr> cfg_database_url = None, cfg_database_name = None,
            cfg_include_bot_messages = None, cfg_group_whitelist = None,
            cfg_group_blacklist = None \<rparr>
     \<lparr> create_engine_result = None,
            create_all_result = Some (BackendError ''disk full'') \<rparr> =
   (Some (BackendError ''disk full''),
    \<lparr> engine = Some ''sqlite+aiosqlite:///./chat_logs.db'',
      session_factory = Some ''sqlite+aiosqlite:///./chat_logs.db'',
      database_url = ''sqlite+aiosqlite:///./chat_logs.db'',
      database_name = ''langbot_chat'',
      include_bot_messages = True,
      group_whitelist = [],
      group_blacklist = [],
      table = [],
      logged =
        [Log ERROR ''Database initialization failed: '' (Some (BackendError ''disk full'')),
         Log ERROR ''Failed to initialize Chat Logger Plugin: ''
           (Some (BackendError ''disk full''))],
      dispose_calls = 0 \<rparr>)"
  by (simp add: initialize_def init_database_def load_config_def log_to_def init_plugin_def)

lemma extract_hello: "extract_message_text (PyStr ''hello'') = Inr (PyStr ''hello'')"
  by (simp add: extract_message_text_def)

lemma strip_hello: "py_strip ''hello'' = ''hello''"
  by (simp add: py_strip_def is_space_def)

section \<open>Group messages\<close>

lemma int_str_42: "int_str 42 = ''42''"
  by (simp add: int_str_def nat_digits.simps digit_char_def)

lemma int_str_7: "int_str 7 = ''7''"
  by (simp add: int_str_def nat_digits.simps digit_char_def)

text \<open>
  C2. For every state, group-message event and answer of the backend,
  \<^verbatim>\<open>on_group_message_received\<close> appends exactly one row when the group passes the
  filter, the extracted message text is not empty or whitespace-only (its
  \<^verbatim>\<open>strip()\<close> is truthy; for a \<^verbatim>\<open>str\<close> that is: it is not empty and not made of
  whitespace only), the session factory has been set and the session commits; the
  row has \<open>user_id\<close> the string form of the sender id, \<open>message\<close> the extracted text,
  \<open>group_id\<close> the string form of the launcher id, \<open>is_bot_message\<close> false, and as
  \<open>nickname\<close> the event's \<^verbatim>\<open>sender_name\<close> when it has one, else the \<^verbatim>\<open>nickname\<close> of the
  sender found through \<^verbatim>\<open>query.message_event.sender\<close>, else that sender's \<^verbatim>\<open>card\<close>,
  else \<^verbatim>\<open>None\<close>. In every other case the table is left as it was.
\<close>

theorem on_group_message_received_persists:
  "table (snd (on_group_message_received s event env)) =
     (case extract_message_text (gm_message_chain event) of
        Inr message_text \<Rightarrow>
          if should_log_group s (gm_launcher_id event) \<and>
             strip_nonempty message_text = Inr True \<and>
             session_factory s \<noteq> None \<and> commit_result env = None
          then table s @
                 [\<lparr> user_id = py_str (gm_sender_id event), nickname = get_nickname event,
                    message = message_text, group_id = py_str (gm_launcher_id event),
                    is_bot_message = False, timestamp = utcnow env \<rparr>]
          else table s
      | Inl e \<Rightarrow> table s)
   \<and> strip_nonempty (PyStr t) = Inr (t \<noteq> [] \<and> \<not> list_all is_space t)
   \<and> (gm_sender_name event = Some n \<longrightarrow> get_nickname event = n)
   \<and> (gm_sender_name event = None \<and>
       py_getattr (gm_query event) ''message_event'' = None \<longrightarrow>
        get_nickname event = PyNone)
   \<and> (gm_sender_name event = None \<and>
       py_getattr (gm_query event) ''message_event'' = Some message_event \<and>
       py_getattr message_event ''sender'' = None \<longrightarrow>
        get_nickname event = PyNone)
   \<and> (gm_sender_name event = None \<and>
       py_getattr (gm_query event) ''message_event'' = Some message_event \<and>
       py_getattr message_event ''sender'' = Some sender \<and>
       py_getattr sender ''nickname'' = Some n \<longrightarrow>
        get_nickname event = n)
   \<and> (gm_sender_name event = None \<and>
       py_getattr (gm_query event) ''message_event'' = Some message_event \<and>
       py_getattr message_event ''sender'' = Some sender \<and>
       py_getattr sender ''nickname'' = None \<and>
       py_getattr sender ''card'' = Some c \<longrightarrow>
        get_nickname event = c)
   \<and> (gm_sender_name event = None \<and>
       py_getattr (gm_query event) ''message_event'' = Some message_event \<and>
       py_getattr message_event ''sender'' = Some sender \<and>
       py_getattr sender ''nickname'' = None \<and>
       py_getattr sender ''card'' = None \<longrightarrow>
        get_nickname event = PyNone)"
proof (intro conjI impI)
  show "table (snd (on_group_message_received s event env)) =
     (case extract_message_text (gm_message_chain event) of
        Inr message_text \<Rightarrow>
          if should_log_group s (gm_launcher_id event) \<and>
             strip_nonempty message_text = Inr True \<and>
             session_factory s \<noteq> None \<and> commit_result env = None
          then table s @
                 [\<lparr> user_id = py_str (gm_sender_id event), nickname = get_nickname event,
                    message = message_text, group_id = py_str (gm_launcher_id event),
                    is_bot_message = False, timestamp = utcnow env \<rparr>]
          else table s
      | Inl e \<Rightarrow> table s)"
    by (rule table_on_group_message_received)
  show "strip_nonempty (PyStr t) = Inr (t \<noteq> [] \<and> \<not> list_all is_space t)"
    by (rule strip_nonempty_str_iff)
qed (simp_all add: get_nickname_lookup)

theorem on_group_message_received_persists_witness:
  "table (snd (on_group_message_received
       (snd (initialize init_plugin
          \<lparr> cfg_database_url = None, cfg_database_name = None,
            cfg_include_bot_messages = None, cfg_group_whitelist = None,
            cfg_group_blacklist = None \<rparr>
          \<lparr> create_engine_result = None, create_all_result = None \<rparr>))
       \<lparr> gm_launcher_id = PyStr ''g1'', gm_sender_id = PyStr ''u1'',
         gm_message_chain = PyStr ''hello'', gm_sender_name = Some (PyStr ''Alice''),
         gm_query = PyNone \<rparr>
       \<lparr> commit_result = None, utcnow = 7 \<rparr>)) =
     [\<lparr> user_id = ''u1'', nickname = PyStr ''Alice'', message = PyStr ''hello'',
        group_id = ''g1'', is_bot_message = False, timestamp = 7 \<rparr>]
   \<and> table (snd (on_group_message_received
       (snd (initialize init_plugin
          \<lparr> cfg_database_url = None, cfg_database_name = None,
            cfg_include_bot_messages = None, cfg_group_whitelist = Some [''g2''],
            cfg_group_blacklist = None \<rparr>
          \<lparr> create_engine_result = None, create_all_result = None \<rparr>))
       \<lparr> gm_launcher_id = PyStr ''g1'', gm_sender_id = PyStr ''u1'',
         gm_message_chain = PyStr ''hello'', gm_sender_name = Some (PyStr ''Alice''),
         gm_query = PyNone \<rparr>
       \<lparr> commit_result = None, utcnow = 7 \<rparr>)) = []
   \<and> table (snd (on_group_message_received
       (snd (initialize init_plugin
          \<lparr> cfg_database_url = None, cfg_database_name = None,
            cfg_include_bot_messages = None, cfg_group_whitelist = None,
            cfg_group_blacklist = None \<rparr>
          \<lparr> create_engine_result = None, create_all_result = None \<rparr>))
       \<lparr> gm_launcher_id = PyInt 42, gm_sender_id = PyInt 7,
         gm_message_chain = PyObj ''chain'' [(''text'', PyStr ''hi there'')] None,
         gm_sender_name = None,
         gm_query = PyObj ''query''
           [(''message_event'',
             PyObj ''event''
               [(''sender'', PyObj ''sender'' [(''card'', PyStr ''Al'')] None)] None)] None \<rparr>
       \<lparr> commit_result = None, utcnow = 7 \<rparr>)) =
     [\<lparr> user_id = ''7'', nickname = PyStr ''Al'', message = PyStr ''hi there'',
        group_id = ''42'', is_bot_message = False, timestamp = 7 \<rparr>]
   \<and> table (snd (on_group_message_received
       (snd (initialize init_plugin
          \<lparr> cfg_database_url = None, cfg_database_name = None,
            cfg_include_bot_messages = None, cfg_group_whitelist = None,
            cfg_group_blacklist = None \<rparr>
          \<lparr> create_engine_result = None, create_all_result = None \<rparr>))
       \<lparr> gm_launcher_id = PyStr ''g1'', gm_sender_id = PyStr ''u1'',
         gm_message_chain = PyObj ''chain''
           [(''text'', (PyOther [CHR ''b'', CHR 0x27, CHR ''h'', CHR ''i'', CHR 0x27] True (Some True) []
              (Some [PyInt 104, PyInt 105])))] None,
         gm_sender_name = Some PyNone, gm_query = PyNone \<rparr>
       \<lparr> commit_result = None, utcnow = 7 \<rparr>)) =
     [\<lparr> user_id = ''u1'', nickname = PyNone,
        message = (PyOther [CHR ''b'', CHR 0x27, CHR ''h'', CHR ''i'', CHR 0x27] True (Some True) []
              (Some [PyInt 104, PyInt 105])),
        group_id = ''g1'', is_bot_message = False, timestamp = 7 \<rparr>]"
proof -
  let ?s = "(snd (initialize init_plugin
          \<lparr> cfg_database_url = None, cfg_database_name = None,
            cfg_include_bot_messages = None, cfg_group_whitelist = None,
            cfg_group_blacklist = None \<rparr>
          \<lparr> create_engine_result = None, create_all_result = None \<rparr>))"
  let ?s2 = "(snd (initialize init_plugin
          \<lparr> cfg_database_url = None, cfg_database_name = None,
            cfg_include_bot_messages = None, cfg_group_whitelist = Some [''g2''],
            cfg_group_blacklist = None \<rparr>
          \<lparr> create_engine_result = None, create_all_result = None \<rparr>))"
  let ?ev1 = "\<lparr> gm_launcher_id = PyStr ''g1'', gm_sender_id = PyStr ''u1'',
         gm_message_chain = PyStr ''hello'', gm_sender_name = Some (PyStr ''Alice''),
         gm_query = PyNone \<rparr>"
  let ?ev3 = "\<lparr> gm_launcher_id = PyInt 42, gm_sender_id = PyInt 7,
         gm_message_chain = PyObj ''chain'' [(''text'', PyStr ''hi there'')] None,
         gm_sender_name = None,
         gm_query = PyObj ''query''
           [(''message_event'',
             PyObj ''event''
               [(''sender'', PyObj ''sender'' [(''card'', PyStr ''Al'')] None)] None)] None \<rparr>"
  let ?ev4 = "\<lparr> gm_launcher_id = PyStr ''g1'', gm_sender_id = PyStr ''u1'',
         gm_message_chain = PyObj ''chain''
           [(''text'', (PyOther [CHR ''b'', CHR 0x27, CHR ''h'', CHR ''i'', CHR 0x27] True (Some True) []
              (Some [PyInt 104, PyInt 105])))] None,
         gm_sender_name = Some PyNone, gm_query = PyNone \<rparr>"
  let ?env = "\<lparr> commit_result = None, utcnow = 7 \<rparr>"
  have st: "strip_nonempty (PyStr ''hello'') = Inr True"
    "strip_nonempty (PyStr ''hi there'') = Inr True"
    using on_group_message_received_persists [of _ _ _ "''hello''"]
      on_group_message_received_persists [of _ _ _ "''hi there''"]
    by (simp_all add: is_space_def)
  have ex: "extract_message_text (gm_message_chain ?ev1) = Inr (PyStr ''hello'')"
    "extract_message_text (gm_message_chain ?ev3) = Inr (PyStr ''hi there'')"
    "extract_message_text (gm_message_chain ?ev4) =
       Inr (PyOther [CHR ''b'', CHR 0x27, CHR ''h'', CHR ''i'', CHR 0x27] True (Some True) []
              (Some [PyInt 104, PyInt 105]))"
    by (simp_all add: extract_message_text_def)
  have n3: "get_nickname ?ev3 = PyStr ''Al''"
    using on_group_message_received_persists
      [of _ ?ev3 _ _ _
          "PyObj ''event'' [(''sender'', PyObj ''sender'' [(''card'', PyStr ''Al'')] None)] None"
          "PyObj ''sender'' [(''card'', PyStr ''Al'')] None" "PyStr ''Al''"]
    by simp
  have n1: "get_nickname ?ev1 = PyStr ''Alice''" "get_nickname ?ev4 = PyNone"
    using on_group_message_received_persists [of _ ?ev1 _ _ "PyStr ''Alice''"]
      on_group_message_received_persists [of _ ?ev4 _ _ PyNone]
    by simp_all
  have a: "table (snd (on_group_message_received ?s ?ev1 ?env)) =
     [\<lparr> user_id = ''u1'', nickname = PyStr ''Alice'', message = PyStr ''hello'',
        group_id = ''g1'', is_bot_message = False, timestamp = 7 \<rparr>]"
    using on_group_message_received_persists [of ?s ?ev1 ?env] ex st n1
    by (simp add: ready_plugin should_log_group_def del: strip_nonempty.simps)
  have b: "table (snd (on_group_message_received ?s2 ?ev1 ?env)) = []"
    using on_group_message_received_persists [of ?s2 ?ev1 ?env] ex
    by (simp add: ready_plugin should_log_group_def del: strip_nonempty.simps)
  have c: "table (snd (on_group_message_received ?s ?ev3 ?env)) =
     [\<lparr> user_id = ''7'', nickname = PyStr ''Al'', message = PyStr ''hi there'',
        group_id = ''42'', is_bot_message = False, timestamp = 7 \<rparr>]"
    using on_group_message_received_persists [of ?s ?ev3 ?env] ex st n3
    by (simp add: ready_plugin should_log_group_def int_str_42 int_str_7
        del: strip_nonempty.simps)
  have d: "table (snd (on_group_message_received ?s ?ev4 ?env)) =
     [\<lparr> user_id = ''u1'', nickname = PyNone,
        message = (PyOther [CHR ''b'', CHR 0x27, CHR ''h'', CHR ''i'', CHR 0x27] True (Some True) []
              (Some [PyInt 104, PyInt 105])),
        group_id = ''g1'', is_bot_message = False, timestamp = 7 \<rparr>]"
    using on_group_message_received_persists [of ?s ?ev4 ?env] ex n1
    by (simp add: ready_plugin should_log_group_def)
  show ?thesis using a b c d by simp
qed

text \<open>
  The filter passing and the text being non-blank do not suffice: on a plugin whose
  session factory was never set, and on an initialized one whose commit fails, the
  same event leaves the table empty.
\<close>

theorem on_group_message_received_persists_counterexample:
  "should_log_group init_plugin (PyStr ''g1'')
   \<and> extract_message_text (PyStr ''hello'') = Inr (PyStr ''hello'')
   \<and> py_strip ''hello'' \<noteq> []
   \<and> table (snd (on_group_message_received init_plugin
       \<lparr> gm_launcher_id = PyStr ''g1'', gm_sender_id = PyStr ''u1'',
         gm_message_chain = PyStr ''hello'', gm_sender_name = Some (PyStr ''Alice''),
         gm_query = PyNone \<rparr>
       \<lparr> commit_result = None, utcnow = 7 \<rparr>)) = table init_plugin
   \<and> table (snd (on_group_message_received
       (snd (initialize init_plugin
          \<lparr> cfg_database_url = None, cfg_database_name = None,
            cfg_include_bot_messages = None, cfg_group_whitelist = None,
            cfg_group_blacklist = None \<rparr>
          \<lparr> create_engine_result = None, create_all_result = None \<rparr>))
       \<lparr> gm_launcher_id = PyStr ''g1'', gm_sender_id = PyStr ''u1'',
         gm_message_chain = PyStr ''hello'', gm_sender_name = Some (PyStr ''Alice''),
         gm_query = PyNone \<rparr>
       \<lparr> commit_result = Some (BackendError ''database is locked''), utcnow = 7 \<rparr>)) = []"
proof -
  have "should_log_group init_plugin (PyStr ''g1'')"
    by (simp add: should_log_group_def init_plugin_def)
  moreover have "session_factory init_plugin = None"
    by (simp add: init_plugin_def)
  ultimately show ?thesis
    by (simp add: table_on_group_message_received ready_plugin extract_hello strip_hello
        should_log_group_def)
qed

section \<open>Bot responses\<close>

lemma build_full_response_cases:
  "nr_prefix event = PyStr p \<Longrightarrow> nr_response_text event = PyStr r \<Longrightarrow>
     build_full_response event = Inr (p @ r)"
  "nr_prefix event = PyNone \<Longrightarrow> nr_response_text event = PyStr r \<Longrightarrow>
     build_full_response event = Inr r"
  "nr_prefix event = PyStr p \<Longrightarrow> nr_response_text event = PyNone \<Longrightarrow>
     build_full_response event = Inr p"
  "nr_prefix event = PyNone \<Longrightarrow> nr_response_text event = PyNone \<Longrightarrow>
     build_full_response event = Inr []"
  by (simp_all add: build_full_response_def add_if_truthy_def)

lemma int_str_10001: "int_str 10001 = ''10001''"
  by (simp add: int_str_def nat_digits.simps digit_char_def)

text \<open>
  C3. For every state, bot-response event and answer of the backend,
  \<^verbatim>\<open>on_normal_message_responded\<close> appends exactly one row when bot messages are
  included, the launcher type is \<^verbatim>\<open>'group'\<close>, the group passes the filter, the
  prefix followed by the response text (each left out when it is falsy) is not empty
  or whitespace-only, the session factory has been set and the session commits; the row has that concatenation as
  \<open>message\<close>, \<open>is_bot_message\<close> true, the nickname \<^verbatim>\<open>'LangBot'\<close> and as \<open>user_id\<close> the
  string form of the adapter's \<^verbatim>\<open>bot_account_id\<close> when the query has an adapter with
  one, else \<^verbatim>\<open>'bot'\<close>. In every other case, in particular when the launcher type is
  not \<^verbatim>\<open>'group'\<close>, the table is left as it was.
\<close>

theorem on_normal_message_responded_persists:
  "table (snd (on_normal_message_responded s event env)) =
     (case build_full_response event of
        Inr full_response \<Rightarrow>
          if include_bot_messages s \<and> nr_launcher_type event = PyStr ''group'' \<and>
             should_log_group s (nr_launcher_id event) \<and> py_strip full_response \<noteq> [] \<and>
             session_factory s \<noteq> None \<and> commit_result env = None
          then table s @
                 [\<lparr> user_id = py_str (get_bot_user_id (nr_query event)),
                    nickname = PyStr ''LangBot'', message = PyStr full_response,
                    group_id = py_str (nr_launcher_id event),
                    is_bot_message = True, timestamp = utcnow env \<rparr>]
          else table s
      | Inl e \<Rightarrow> table s)
   \<and> (nr_prefix event = PyStr p \<and> nr_response_text event = PyStr r
        \<longrightarrow> build_full_response event = Inr (p @ r))
   \<and> (nr_prefix event = PyNone \<and> nr_response_text event = PyStr r
        \<longrightarrow> build_full_response event = Inr r)
   \<and> (nr_prefix event = PyStr p \<and> nr_response_text event = PyNone
        \<longrightarrow> build_full_response event = Inr p)
   \<and> (py_getattr (nr_query event) ''adapter'' = Some adapter \<and>
       py_getattr adapter ''bot_account_id'' = Some b
        \<longrightarrow> get_bot_user_id (nr_query event) = b)
   \<and> (py_getattr (nr_query event) ''adapter'' = None
        \<longrightarrow> get_bot_user_id (nr_query event) = PyStr ''bot'')
   \<and> (py_getattr (nr_query event) ''adapter'' = Some adapter \<and>
       py_getattr adapter ''bot_account_id'' = None
        \<longrightarrow> get_bot_user_id (nr_query event) = PyStr ''bot'')
   \<and> (nr_launcher_type event \<noteq> PyStr ''group''
        \<longrightarrow> table (snd (on_normal_message_responded s event env)) = table s)"
  by (simp add: table_on_normal_message_responded build_full_response_cases get_bot_user_id_def
      split: sum.splits)

theorem on_normal_message_responded_persists_witness:
  "table (snd (on_normal_message_responded
       (snd (initialize init_plugin
          \<lparr> cfg_database_url = None, cfg_database_name = None,
            cfg_include_bot_messages = None, cfg_group_whitelist = None,
            cfg_group_blacklist = None \<rparr>
          \<lparr> create_engine_result = None, create_all_result = None \<rparr>))
       \<lparr> nr_launcher_type = PyStr ''group'', nr_launcher_id = PyStr ''g1'',
         nr_prefix = PyStr ''[bot] '', nr_response_text = PyStr ''hi'',
         nr_query = PyObj ''query''
           [(''adapter'', PyObj ''adapter'' [(''bot_account_id'', PyInt 10001)] None)] None \<rparr>
       \<lparr> commit_result = None, utcnow = 8 \<rparr>)) =
     [\<lparr> user_id = ''10001'', nickname = PyStr ''LangBot'', message = PyStr ''[bot] hi'',
        group_id = ''g1'', is_bot_message = True, timestamp = 8 \<rparr>]
   \<and> table (snd (on_normal_message_responded
       (snd (initialize init_plugin
          \<lparr> cfg_database_url = None, cfg_database_name = None,
            cfg_include_bot_messages = None, cfg_group_whitelist = None,
            cfg_group_blacklist = None \<rparr>
          \<lparr> create_engine_result = None, create_all_result = None \<rparr>))
       \<lparr> nr_launcher_type = PyStr ''group'', nr_launcher_id = PyStr ''g1'',
         nr_prefix = PyStr ''[bot] '', nr_response_text = PyStr ''hi'',
         nr_query = PyNone \<rparr>
       \<lparr> commit_result = None, utcnow = 8 \<rparr>)) =
     [\<lparr> user_id = ''bot'', nickname = PyStr ''LangBot'', message = PyStr ''[bot] hi'',
        group_id = ''g1'', is_bot_message = True, timestamp = 8 \<rparr>]
   \<and> table (snd (on_normal_message_responded
       (snd (initialize init_plugin
          \<lparr> cfg_database_url = None, cfg_database_name = None,
            cfg_include_bot_messages = None, cfg_group_whitelist = None,
            cfg_group_blacklist = None \<rparr>
          \<lparr> create_engine_result = None, create_all_result = None \<rparr>))
       \<lparr> nr_launcher_type = PyStr ''person'', nr_launcher_id = PyStr ''g1'',
         nr_prefix = PyStr ''[bot] '', nr_response_text = PyStr ''hi'',
         nr_query = PyNone \<rparr>
       \<lparr> commit_result = None, utcnow = 8 \<rparr>)) = []
   \<and> table (snd (on_normal_message_responded
       (snd (initialize init_plugin
          \<lparr> cfg_database_url = None, cfg_database_name = None,
            cfg_include_bot_messages = None, cfg_group_whitelist = None,
            cfg_group_blacklist = None \<rparr>
          \<lparr> create_engine_result = None, create_all_result = None \<rparr>))
       \<lparr> nr_launcher_type = PyStr ''group'', nr_launcher_id = PyStr ''g1'',
         nr_prefix = PyStr ''[bot] '',
         nr_response_text = PyOther ''0.0'' False None [] None,
         nr_query = PyNone \<rparr>
       \<lparr> commit_result = None, utcnow = 8 \<rparr>)) =
     [\<lparr> user_id = ''bot'', nickname = PyStr ''LangBot'', message = PyStr ''[bot] '',
        group_id = ''g1'', is_bot_message = True, timestamp = 8 \<rparr>]
   \<and> table (snd (on_normal_message_responded
       (snd (initialize init_plugin
          \<lparr> cfg_database_url = None, cfg_database_name = None,
            cfg_include_bot_messages = None, cfg_group_whitelist = None,
            cfg_group_blacklist = None \<rparr>
          \<lparr> create_engine_result = None, create_all_result = None \<rparr>))
       \<lparr> nr_launcher_type = PyStr ''group'', nr_launcher_id = PyStr ''g1'',
         nr_prefix = PyOther ''<list_iterator>'' True None [] (Some []),
         nr_response_text = PyStr ''hi'',
         nr_query = PyNone \<rparr>
       \<lparr> commit_result = None, utcnow = 8 \<rparr>)) = []"
proof -
  let ?e4 = "\<lparr> nr_launcher_type = PyStr ''group'', nr_launcher_id = PyStr ''g1'',
         nr_prefix = PyStr ''[bot] '',
         nr_response_text = PyOther ''0.0'' False None [] None,
         nr_query = PyNone \<rparr>"
  let ?e5 = "\<lparr> nr_launcher_type = PyStr ''group'', nr_launcher_id = PyStr ''g1'',
         nr_prefix = PyOther ''<list_iterator>'' True None [] (Some []),
         nr_response_text = PyStr ''hi'',
         nr_query = PyNone \<rparr>"
  let ?s = "snd (initialize init_plugin
          \<lparr> cfg_database_url = None, cfg_database_name = None,
            cfg_include_bot_messages = None, cfg_group_whitelist = None,
            cfg_group_blacklist = None \<rparr>
          \<lparr> create_engine_result = None, create_all_result = None \<rparr>)"
  let ?q = "PyObj ''query''
           [(''adapter'', PyObj ''adapter'' [(''bot_account_id'', PyInt 10001)] None)] None"
  let ?env = "\<lparr> commit_result = None, utcnow = 8 \<rparr>"
  let ?e1 = "\<lparr> nr_launcher_type = PyStr ''group'', nr_launcher_id = PyStr ''g1'',
         nr_prefix = PyStr ''[bot] '', nr_response_text = PyStr ''hi'', nr_query = ?q \<rparr>"
  let ?e2 = "\<lparr> nr_launcher_type = PyStr ''group'', nr_launcher_id = PyStr ''g1'',
         nr_prefix = PyStr ''[bot] '', nr_response_text = PyStr ''hi'', nr_query = PyNone \<rparr>"
  let ?e3 = "\<lparr> nr_launcher_type = PyStr ''person'', nr_launcher_id = PyStr ''g1'',
         nr_prefix = PyStr ''[bot] '', nr_response_text = PyStr ''hi'', nr_query = PyNone \<rparr>"
  have strip: "py_strip ''[bot] hi'' \<noteq> []"
    by (simp add: py_strip_def is_space_def)
  have ok: "should_log_group ?s (PyStr ''g1'')"
    by (simp add: ready_plugin should_log_group_def)
  have sf: "session_factory ?s \<noteq> None" "include_bot_messages ?s" "table ?s = []"
    by (simp_all add: ready_plugin)
  note th1 = on_normal_message_responded_persists
    [of ?s ?e1 ?env "''[bot] ''" "''hi''"
       "PyObj ''adapter'' [(''bot_account_id'', PyInt 10001)] None" "PyInt 10001"]
  note th2 = on_normal_message_responded_persists [of ?s ?e2 ?env "''[bot] ''" "''hi''"]
  note th3 = on_normal_message_responded_persists [of ?s ?e3 ?env]
  have a: "table (snd (on_normal_message_responded ?s ?e1 ?env)) =
     [\<lparr> user_id = ''10001'', nickname = PyStr ''LangBot'', message = PyStr ''[bot] hi'',
        group_id = ''g1'', is_bot_message = True, timestamp = 8 \<rparr>]"
    using th1 strip ok sf by (simp add: int_str_10001)
  have b: "table (snd (on_normal_message_responded ?s ?e2 ?env)) =
     [\<lparr> user_id = ''bot'', nickname = PyStr ''LangBot'', message = PyStr ''[bot] hi'',
        group_id = ''g1'', is_bot_message = True, timestamp = 8 \<rparr>]"
    using th2 strip ok sf by simp
  have c: "table (snd (on_normal_message_responded ?s ?e3 ?env)) = []"
    using th3 sf by simp
  have strip4: "py_strip ''[bot] '' \<noteq> []"
    by (simp add: py_strip_def is_space_def)
  have full4: "build_full_response ?e4 = Inr ''[bot] ''"
    by (simp add: build_full_response_def add_if_truthy_def)
  have d: "table (snd (on_normal_message_responded ?s ?e4 ?env)) =
     [\<lparr> user_id = ''bot'', nickname = PyStr ''LangBot'', message = PyStr ''[bot] '',
        group_id = ''g1'', is_bot_message = True, timestamp = 8 \<rparr>]"
    using on_normal_message_responded_persists [of ?s ?e4 ?env] full4 strip4 ok sf by simp
  have full5: "build_full_response ?e5 = Inl TypeError"
    by (simp add: build_full_response_def add_if_truthy_def)
  have e: "table (snd (on_normal_message_responded ?s ?e5 ?env)) = []"
    using on_normal_message_responded_persists [of ?s ?e5 ?env] full5 sf by simp
  show ?thesis using a b c d e by simp
qed

text \<open>
  As for group messages, the four conditions on the event and the configuration do
  not suffice: without a session factory, or with a commit that fails, the response
  is not stored.
\<close>

theorem on_normal_message_responded_persists_counterexample:
  "include_bot_messages init_plugin
   \<and> should_log_group init_plugin (PyStr ''g1'')
   \<and> py_strip (''[bot] '' @ ''hi'') \<noteq> []
   \<and> table (snd (on_normal_message_responded init_plugin
       \<lparr> nr_launcher_type = PyStr ''group'', nr_launcher_id = PyStr ''g1'',
         nr_prefix = PyStr ''[bot] '', nr_response_text = PyStr ''hi'',
         nr_query = PyNone \<rparr>
       \<lparr> commit_result = None, utcnow = 8 \<rparr>)) = table init_plugin
   \<and> table (snd (on_normal_message_responded
       (snd (initialize init_plugin
          \<lparr> cfg_database_url = None, cfg_database_name = None,
            cfg_include_bot_messages = None, cfg_group_whitelist = None,
            cfg_group_blacklist = None \<rparr>
          \<lparr> create_engine_result = None, create_all_result = None \<rparr>))
       \<lparr> nr_launcher_type = PyStr ''group'', nr_launcher_id = PyStr ''g1'',
         nr_prefix = PyStr ''[bot] '', nr_response_text = PyStr ''hi'',
         nr_query = PyNone \<rparr>
       \<lparr> commit_result = Some (BackendError ''database is locked''), utcnow = 8 \<rparr>)) = []"
proof -
  have "should_log_group init_plugin (PyStr ''g1'')" "include_bot_messages init_plugin"
    by (simp_all add: should_log_group_def init_plugin_def)
  moreover have "session_factory init_plugin = None"
    by (simp add: init_plugin_def)
  moreover have "py_strip (''[bot] '' @ ''hi'') \<noteq> []"
    by (simp add: py_strip_def is_space_def)
  ultimately show ?thesis
    by (simp add: table_on_normal_message_responded ready_plugin build_full_response_def
        add_if_truthy_def)
qed

section \<open>Message text extraction\<close>

lemma str_iadd_text:
  "text_or_nothing (Some v) \<Longrightarrow> str_iadd acc v = Inr (acc @ text_of (Some v))"
  by (cases v) simp_all

lemma str_iadd_raises:
  "\<not> text_or_nothing (Some v) \<Longrightarrow> str_iadd acc v = Inl TypeError"
  by (cases v) simp_all

lemma add_msg_contribution:
  "text_or_nothing (contribution part) \<Longrightarrow>
     add_msg acc part = Inr (acc @ text_of (contribution part))"
  by (cases part)
     (auto simp: add_msg_def contribution_def str_iadd_text split: option.splits pyval.splits)

lemma add_msg_raises:
  "\<not> text_or_nothing (contribution part) \<Longrightarrow> add_msg acc part = Inl TypeError"
  by (cases part)
     (auto simp: add_msg_def contribution_def str_iadd_raises split: option.splits pyval.splits)

lemma concat_msgs_contributions:
  "list_all (\<lambda>part. text_or_nothing (contribution part)) parts \<Longrightarrow>
     concat_msgs acc parts = Inr (acc @ concat (map (\<lambda>part. text_of (contribution part)) parts))"
proof (induction parts arbitrary: acc)
  case Nil
  then show ?case by simp
next
  case (Cons part parts)
  then show ?case by (simp add: add_msg_contribution)
qed

lemma concat_msgs_raises:
  "concat_msgs acc parts = Inl e \<Longrightarrow>
     e = TypeError \<and> \<not> list_all (\<lambda>part. text_or_nothing (contribution part)) parts"
proof (induction parts arbitrary: acc)
  case Nil
  then show ?case by simp
next
  case (Cons part parts)
  show ?case
  proof (cases "text_or_nothing (contribution part)")
    case True
    with Cons show ?thesis by (simp add: add_msg_contribution)
  next
    case False
    with Cons.prems show ?thesis by (simp add: add_msg_raises)
  qed
qed

text \<open>
  C4. For a composite payload, one whose \<^verbatim>\<open>messages\<close> attribute yields the sub-parts
  \<open>parts\<close> when iterated, and in which the text field of every sub-part that has one
  is a string, the extraction returns the concatenation, in order, of the
  contributions: a sub-part's text field if it has one, else its content field if
  that is a string, else the sub-part itself if it is a plain string, else nothing.
  Sub-parts that contribute nothing are skipped and raise no error.
\<close>

theorem extract_message_text_composite:
  "py_getattr message_chain ''messages'' = Some messages \<Longrightarrow>
   py_iter messages = Some parts \<Longrightarrow>
   list_all (\<lambda>part. text_or_nothing (contribution part)) parts \<Longrightarrow>
     extract_message_text message_chain =
       Inr (PyStr (concat (map (\<lambda>part. text_of (contribution part)) parts)))"
  by (simp add: extract_message_text_def concat_msgs_contributions)

theorem extract_message_text_composite_witness:
  "extract_message_text
     (PyObj ''chain''
        [(''messages'',
          PyObj ''list'' []
            (Some [PyObj ''Plain'' [(''text'', PyStr ''he'')] None,
                   PyObj ''Image'' [(''url'', PyStr ''http://x'')] None,
                   PyObj ''Quote'' [(''content'', PyStr ''ll'')] None,
                   PyObj ''Card'' [(''content'', PyInt 3)] None,
                   PyStr ''o '',
                   PyInt 5]))] None)
   = Inr (PyStr ''hello '')"
proof -
  let ?parts = "[PyObj ''Plain'' [(''text'', PyStr ''he'')] None,
                   PyObj ''Image'' [(''url'', PyStr ''http://x'')] None,
                   PyObj ''Quote'' [(''content'', PyStr ''ll'')] None,
                   PyObj ''Card'' [(''content'', PyInt 3)] None,
                   PyStr ''o '',
                   PyInt 5]"
  let ?messages = "PyObj ''list'' [] (Some ?parts)"
  let ?chain = "PyObj ''chain'' [(''messages'', ?messages)] None"
  have a: "py_getattr ?chain ''messages'' = Some ?messages" by simp
  have b: "py_iter ?messages = Some ?parts" by simp
  have c: "list_all (\<lambda>part. text_or_nothing (contribution part)) ?parts"
    by (simp add: contribution_def)
  show ?thesis
    using extract_message_text_composite [OF a b c] by (simp add: contribution_def)
qed

text \<open>
  Without the condition on the text fields the extraction does not return: a
  sub-part that has a text field contributes it whatever it holds, and appending
  \<^verbatim>\<open>None\<close> to the text collected so far raises a \<^verbatim>\<open>TypeError\<close>.
\<close>

theorem extract_message_text_composite_counterexample:
  "py_getattr
     (PyObj ''chain''
        [(''messages'',
          PyObj ''list'' []
            (Some [PyObj ''Plain'' [(''text'', PyStr ''he'')] None,
                   PyObj ''Unknown'' [(''text'', PyNone)] None,
                   PyStr ''llo'']))] None) ''messages''
   = Some (PyObj ''list'' []
            (Some [PyObj ''Plain'' [(''text'', PyStr ''he'')] None,
                   PyObj ''Unknown'' [(''text'', PyNone)] None,
                   PyStr ''llo'']))
   \<and> contribution (PyObj ''Unknown'' [(''text'', PyNone)] None) = Some PyNone
   \<and> extract_message_text
       (PyObj ''chain''
          [(''messages'',
            PyObj ''list'' []
              (Some [PyObj ''Plain'' [(''text'', PyStr ''he'')] None,
                     PyObj ''Unknown'' [(''text'', PyNone)] None,
                     PyStr ''llo'']))] None)
     = Inl TypeError"
  by (simp add: extract_message_text_def add_msg_def contribution_def)

text \<open>
  C5. The extraction has no state to act on: it is a function of the payload alone.
  A payload without a \<^verbatim>\<open>messages\<close> attribute never makes it raise; it returns the
  direct text field when there is one, else the payload's string rendering (the
  payload itself when it is a plain string). The extraction raises only a
  \<^verbatim>\<open>TypeError\<close>, and only on a composite payload whose \<^verbatim>\<open>messages\<close> attribute is not
  iterable or has a sub-part whose text field is not a string; the handler then
  catches the exception at its boundary: it returns normally, having logged the
  error when the group is eligible, and the rest of the state is unchanged.
\<close>

theorem extract_message_text_failure:
  "(py_getattr p ''messages'' = None \<longrightarrow>
      extract_message_text p =
        Inr (case py_getattr p ''text'' of Some t \<Rightarrow> t | None \<Rightarrow> PyStr (py_str p)))
   \<and> (extract_message_text p = Inl e \<longrightarrow>
        e = TypeError \<and>
        (\<exists>messages. py_getattr p ''messages'' = Some messages \<and>
           (py_iter messages = None \<or>
            (\<exists>parts. py_iter messages = Some parts \<and>
               \<not> list_all (\<lambda>part. text_or_nothing (contribution part)) parts))))
   \<and> (extract_message_text (gm_message_chain event) = Inl e \<longrightarrow>
        on_group_message_received s event env =
          (None,
           if should_log_group s (gm_launcher_id event)
           then log_to s ERROR ''Error handling group message: '' (Some e)
           else s))"
proof (intro conjI impI)
  assume "py_getattr p ''messages'' = None"
  then show "extract_message_text p =
        Inr (case py_getattr p ''text'' of Some t \<Rightarrow> t | None \<Rightarrow> PyStr (py_str p))"
    by (cases p) (simp_all add: extract_message_text_def split: option.splits)
next
  assume a: "extract_message_text p = Inl e"
  then show "e = TypeError"
    by (auto simp: extract_message_text_def split: option.splits sum.splits pyval.splits
        dest: concat_msgs_raises)
next
  assume a: "extract_message_text p = Inl e"
  then show "\<exists>messages. py_getattr p ''messages'' = Some messages \<and>
           (py_iter messages = None \<or>
            (\<exists>parts. py_iter messages = Some parts \<and>
               \<not> list_all (\<lambda>part. text_or_nothing (contribution part)) parts))"
    by (auto simp: extract_message_text_def split: option.splits sum.splits pyval.splits
        dest: concat_msgs_raises)
next
  assume "extract_message_text (gm_message_chain event) = Inl e"
  then show "on_group_message_received s event env =
          (None,
           if should_log_group s (gm_launcher_id event)
           then log_to s ERROR ''Error handling group message: '' (Some e)
           else s)"
    by (simp add: on_group_message_received_def group_message_body_def)
qed


theorem extract_message_text_failure_witness:
  "extract_message_text (PyInt 42) = Inr (PyStr ''42'')
   \<and> extract_message_text (PyObj ''chain'' [(''text'', PyStr ''hi'')] None) = Inr (PyStr ''hi'')
   \<and> on_group_message_received init_plugin
       \<lparr> gm_launcher_id = PyStr ''g1'', gm_sender_id = PyStr ''u1'',
         gm_message_chain = PyObj ''chain'' [(''messages'', PyNone)] None,
         gm_sender_name = None, gm_query = PyNone \<rparr>
       \<lparr> commit_result = None, utcnow = 7 \<rparr> =
     (None, log_to init_plugin ERROR ''Error handling group message: '' (Some TypeError))"
proof -
  let ?bad = "PyObj ''chain'' [(''messages'', PyNone)] None"
  let ?event = "\<lparr> gm_launcher_id = PyStr ''g1'', gm_sender_id = PyStr ''u1'',
         gm_message_chain = ?bad, gm_sender_name = None, gm_query = PyNone \<rparr>"
  let ?env = "\<lparr> commit_result = None, utcnow = 7 \<rparr>"
  have a: "extract_message_text (PyInt 42) = Inr (PyStr ''42'')"
    using extract_message_text_failure [of "PyInt 42"] by (simp add: int_str_42)
  have b: "extract_message_text (PyObj ''chain'' [(''text'', PyStr ''hi'')] None) = Inr (PyStr ''hi'')"
    using extract_message_text_failure [of "PyObj ''chain'' [(''text'', PyStr ''hi'')] None"]
    by simp
  have raises: "extract_message_text (gm_message_chain ?event) = Inl TypeError"
    by (simp add: extract_message_text_def)
  have ok: "should_log_group init_plugin (gm_launcher_id ?event)"
    by (simp add: should_log_group_def init_plugin_def)
  have c: "on_group_message_received init_plugin ?event ?env =
     (None, log_to init_plugin ERROR ''Error handling group message: '' (Some TypeError))"
    using extract_message_text_failure [of ?bad TypeError ?event init_plugin ?env] raises ok
    by simp
  show ?thesis using a b c by simp
qed

text \<open>
  The extraction does raise on some payloads: a \<^verbatim>\<open>messages\<close> attribute that is
  \<^verbatim>\<open>None\<close> cannot be iterated, and a sub-part whose \<^verbatim>\<open>text\<close> is \<^verbatim>\<open>None\<close> cannot be
  appended to a string.
\<close>

theorem extract_message_text_failure_counterexample:
  "extract_message_text (PyObj ''chain'' [(''messages'', PyNone)] None) = Inl TypeError
   \<and> extract_message_text
       (PyObj ''chain''
          [(''messages'',
            PyObj ''list'' [] (Some [PyObj ''part'' [(''text'', PyNone)] None]))] None)
     = Inl TypeError"
  by (simp add: extract_message_text_def add_msg_def)

section \<open>Failed appends\<close>

lemma save_chat_record_not_ready:
  "session_factory s = None \<Longrightarrow>
     save_chat_record s env uid nick msg gid is_bot =
       s\<lparr>logged := logged s @
            [Log WARNING ''Database not initialized, skipping record save'' None]\<rparr>"
  by (simp add: save_chat_record_def log_to_def)

lemma save_chat_record_commit_fails:
  "session_factory s \<noteq> None \<Longrightarrow> commit_result env = Some ex \<Longrightarrow>
     save_chat_record s env uid nick msg gid is_bot =
       s\<lparr>logged := logged s @ [Log ERROR ''Failed to save chat record: '' (Some ex)]\<rparr>"
  by (auto simp: save_chat_record_def log_to_def split: option.splits)

lemma on_group_message_received_saves:
  "should_log_group s (gm_launcher_id event) \<Longrightarrow>
   extract_message_text (gm_message_chain event) = Inr message_text \<Longrightarrow>
   strip_nonempty message_text = Inr True \<Longrightarrow>
     snd (on_group_message_received s event env) =
       save_chat_record s env (gm_sender_id event) (get_nickname event) message_text
         (gm_launcher_id event) False"
  by (simp add: on_group_message_received_def group_message_body_def)

lemma on_normal_message_responded_saves:
  "include_bot_messages s \<Longrightarrow> nr_launcher_type event = PyStr ''group'' \<Longrightarrow>
   should_log_group s (nr_launcher_id event) \<Longrightarrow>
   build_full_response event = Inr full_response \<Longrightarrow>
   py_strip full_response \<noteq> [] \<Longrightarrow>
     snd (on_normal_message_responded s event env) =
       save_chat_record s env (get_bot_user_id (nr_query event)) (PyStr ''LangBot'')
         (PyStr full_response) (nr_launcher_id event) True"
  by (simp add: on_normal_message_responded_def normal_message_body_def)

lemma should_log_group_logged [simp]:
  "should_log_group (s\<lparr>logged := l\<rparr>) gid = should_log_group s gid"
  by (simp add: should_log_group_def)

text \<open>No call reads the log: two states that differ in the log only stay so.\<close>

lemma save_chat_record_modulo_log:
  "(save_chat_record (s\<lparr>logged := l\<rparr>) env uid nick msg gid is_bot)\<lparr>logged := []\<rparr> =
   (save_chat_record s env uid nick msg gid is_bot)\<lparr>logged := []\<rparr>"
  by (simp add: save_chat_record_def log_to_def split: option.splits)

lemma step_modulo_log:
  "(snd (step (s\<lparr>logged := l\<rparr>) a))\<lparr>logged := []\<rparr> = (snd (step s a))\<lparr>logged := []\<rparr>"
proof (cases a)
  case (Initialize cfg env)
  then show ?thesis
    by (simp add: initialize_def init_database_def load_config_def log_to_def Let_def
        split: option.splits prod.splits)
next
  case (GroupMessage event env)
  then show ?thesis
    by (simp add: on_group_message_received_def group_message_body_def log_to_def
        save_chat_record_modulo_log split: sum.splits)
next
  case (BotResponse event env)
  then show ?thesis
    by (simp add: on_normal_message_responded_def normal_message_body_def log_to_def
        save_chat_record_modulo_log split: sum.splits)
next
  case (Destroy d)
  then show ?thesis by (simp add: destroy_def log_to_def Let_def split: option.splits)
qed

lemma modulo_log_eq: "x\<lparr>logged := []\<rparr> = y\<lparr>logged := []\<rparr> \<Longrightarrow> x = y\<lparr>logged := logged x\<rparr>"
proof -
  assume a: "x\<lparr>logged := []\<rparr> = y\<lparr>logged := []\<rparr>"
  have "x = (x\<lparr>logged := []\<rparr>)\<lparr>logged := logged x\<rparr>" by simp
  also have "\<dots> = (y\<lparr>logged := []\<rparr>)\<lparr>logged := logged x\<rparr>" using a by simp
  also have "\<dots> = y\<lparr>logged := logged x\<rparr>" by simp
  finally show ?thesis .
qed

lemma run_modulo_log:
  "(run (s\<lparr>logged := l\<rparr>) acts)\<lparr>logged := []\<rparr> = (run s acts)\<lparr>logged := []\<rparr>"
proof (induction acts arbitrary: s l)
  case Nil
  then show ?case by simp
next
  case (Cons a acts)
  have "snd (step (s\<lparr>logged := l\<rparr>) a) =
          (snd (step s a))\<lparr>logged := logged (snd (step (s\<lparr>logged := l\<rparr>) a))\<rparr>"
    by (rule modulo_log_eq) (rule step_modulo_log)
  then have "run (s\<lparr>logged := l\<rparr>) (a # acts) =
          run ((snd (step s a))\<lparr>logged := logged (snd (step (s\<lparr>logged := l\<rparr>) a))\<rparr>) acts"
    by simp
  then show ?case using Cons.IH [where s = "snd (step s a)"] by simp
qed

lemma table_run_logged: "table (run (s\<lparr>logged := l\<rparr>) acts) = table (run s acts)"
proof -
  have "table ((run (s\<lparr>logged := l\<rparr>) acts)\<lparr>logged := []\<rparr>) =
        table ((run s acts)\<lparr>logged := []\<rparr>)"
    by (simp only: run_modulo_log)
  then show ?thesis by simp
qed


text \<open>
  C7. Both handlers return normally, whatever the event and the backend's answer.
  When a handler reaches \<^verbatim>\<open>_save_chat_record\<close> and the append fails, because the
  session factory is not set or because the storage operation raises, the state
  after the handler is the state before it with one entry added to the log: the
  warning \<^verbatim>\<open>Database not initialized, skipping record save\<close> in the first case, the
  error \<^verbatim>\<open>Failed to save chat record\<close> with the exception in the second. So the
  event is dropped. Since no call reads the log, every later sequence of calls
  stores what it would have stored had the failed event never arrived.
\<close>

theorem failed_append_is_contained:
  "fst (on_group_message_received s event env) = None
   \<and> fst (on_normal_message_responded s bot_event env) = None
   \<and> (session_factory s = None \<longrightarrow>
        save_chat_record s env uid nick msg gid is_bot =
          s\<lparr>logged := logged s @
               [Log WARNING ''Database not initialized, skipping record save'' None]\<rparr>)
   \<and> (session_factory s \<noteq> None \<and> commit_result env = Some ex \<longrightarrow>
        save_chat_record s env uid nick msg gid is_bot =
          s\<lparr>logged := logged s @
               [Log ERROR ''Failed to save chat record: '' (Some ex)]\<rparr>)
   \<and> (should_log_group s (gm_launcher_id event) \<and>
       extract_message_text (gm_message_chain event) = Inr message_text \<and>
       strip_nonempty message_text = Inr True \<and> session_factory s = None \<longrightarrow>
        snd (on_group_message_received s event env) =
          s\<lparr>logged := logged s @
               [Log WARNING ''Database not initialized, skipping record save'' None]\<rparr>)
   \<and> (should_log_group s (gm_launcher_id event) \<and>
       extract_message_text (gm_message_chain event) = Inr message_text \<and>
       strip_nonempty message_text = Inr True \<and>
       session_factory s \<noteq> None \<and> commit_result env = Some ex \<longrightarrow>
        snd (on_group_message_received s event env) =
          s\<lparr>logged := logged s @
               [Log ERROR ''Failed to save chat record: '' (Some ex)]\<rparr>)
   \<and> (include_bot_messages s \<and> nr_launcher_type bot_event = PyStr ''group'' \<and>
       should_log_group s (nr_launcher_id bot_event) \<and>
       build_full_response bot_event = Inr full_response \<and> py_strip full_response \<noteq> [] \<and>
       session_factory s = None \<longrightarrow>
        snd (on_normal_message_responded s bot_event env) =
          s\<lparr>logged := logged s @
               [Log WARNING ''Database not initialized, skipping record save'' None]\<rparr>)
   \<and> (include_bot_messages s \<and> nr_launcher_type bot_event = PyStr ''group'' \<and>
       should_log_group s (nr_launcher_id bot_event) \<and>
       build_full_response bot_event = Inr full_response \<and> py_strip full_response \<noteq> [] \<and>
       session_factory s \<noteq> None \<and> commit_result env = Some ex \<longrightarrow>
        snd (on_normal_message_responded s bot_event env) =
          s\<lparr>logged := logged s @
               [Log ERROR ''Failed to save chat record: '' (Some ex)]\<rparr>)
   \<and> table (run (s\<lparr>logged := l\<rparr>) acts) = table (run s acts)"
proof (intro conjI impI)
  show "fst (on_group_message_received s event env) = None" by simp
  show "fst (on_normal_message_responded s bot_event env) = None" by simp
  show "table (run (s\<lparr>logged := l\<rparr>) acts) = table (run s acts)"
    by (rule table_run_logged)
next
  assume "session_factory s = None"
  then show "save_chat_record s env uid nick msg gid is_bot =
          s\<lparr>logged := logged s @
               [Log WARNING ''Database not initialized, skipping record save'' None]\<rparr>"
    by (rule save_chat_record_not_ready)
next
  assume "session_factory s \<noteq> None \<and> commit_result env = Some ex"
  then show "save_chat_record s env uid nick msg gid is_bot =
          s\<lparr>logged := logged s @
               [Log ERROR ''Failed to save chat record: '' (Some ex)]\<rparr>"
    by (simp add: save_chat_record_commit_fails)
next
  assume "should_log_group s (gm_launcher_id event) \<and>
       extract_message_text (gm_message_chain event) = Inr message_text \<and>
       strip_nonempty message_text = Inr True \<and> session_factory s = None"
  then show "snd (on_group_message_received s event env) =
          s\<lparr>logged := logged s @
               [Log WARNING ''Database not initialized, skipping record save'' None]\<rparr>"
    by (simp add: on_group_message_received_saves save_chat_record_not_ready)
next
  assume "should_log_group s (gm_launcher_id event) \<and>
       extract_message_text (gm_message_chain event) = Inr message_text \<and>
       strip_nonempty message_text = Inr True \<and>
       session_factory s \<noteq> None \<and> commit_result env = Some ex"
  then show "snd (on_group_message_received s event env) =
          s\<lparr>logged := logged s @
               [Log ERROR ''Failed to save chat record: '' (Some ex)]\<rparr>"
    by (simp add: on_group_message_received_saves save_chat_record_commit_fails)
next
  assume "include_bot_messages s \<and> nr_launcher_type bot_event = PyStr ''group'' \<and>
       should_log_group s (nr_launcher_id bot_event) \<and>
       build_full_response bot_event = Inr full_response \<and> py_strip full_response \<noteq> [] \<and>
       session_factory s = None"
  then show "snd (on_normal_message_responded s bot_event env) =
          s\<lparr>logged := logged s @
               [Log WARNING ''Database not initialized, skipping record save'' None]\<rparr>"
    by (simp add: on_normal_message_responded_saves save_chat_record_not_ready)
next
  assume "include_bot_messages s \<and> nr_launcher_type bot_event = PyStr ''group'' \<and>
       should_log_group s (nr_launcher_id bot_event) \<and>
       build_full_response bot_event = Inr full_response \<and> py_strip full_response \<noteq> [] \<and>
       session_factory s \<noteq> None \<and> commit_result env = Some ex"
  then show "snd (on_normal_message_responded s bot_event env) =
          s\<lparr>logged := logged s @
               [Log ERROR ''Failed to save chat record: '' (Some ex)]\<rparr>"
    by (simp add: on_normal_message_responded_saves save_chat_record_commit_fails)
qed


theorem failed_append_is_contained_witness:
  "fst (on_group_message_received
       (snd (initialize init_plugin
          \<lparr> cfg_database_url = None, cfg_database_name = None,
            cfg_include_bot_messages = None, cfg_group_whitelist = None,
            cfg_group_blacklist = None \<rparr>
          \<lparr> create_engine_result = None, create_all_result = None \<rparr>))
       \<lparr> gm_launcher_id = PyStr ''g1'', gm_sender_id = PyStr ''u1'',
         gm_message_chain = PyStr ''hello'', gm_sender_name = Some (PyStr ''Alice''),
         gm_query = PyNone \<rparr>
       \<lparr> commit_result = Some (BackendError ''database is locked''), utcnow = 7 \<rparr>) = None
   \<and> table (snd (on_group_message_received
       (snd (initialize init_plugin
          \<lparr> cfg_database_url = None, cfg_database_name = None,
            cfg_include_bot_messages = None, cfg_group_whitelist = None,
            cfg_group_blacklist = None \<rparr>
          \<lparr> create_engine_result = None, create_all_result = None \<rparr>))
       \<lparr> gm_launcher_id = PyStr ''g1'', gm_sender_id = PyStr ''u1'',
         gm_message_chain = PyStr ''hello'', gm_sender_name = Some (PyStr ''Alice''),
         gm_query = PyNone \<rparr>
       \<lparr> commit_result = Some (BackendError ''database is locked''), utcnow = 7 \<rparr>)) = []
   \<and> logged (snd (on_group_message_received
       (snd (initialize init_plugin
          \<lparr> cfg_database_url = None, cfg_database_name = None,
            cfg_include_bot_messages = None, cfg_group_whitelist = None,
            cfg_group_blacklist = None \<rparr>
          \<lparr> create_engine_result = None, create_all_result = None \<rparr>))
       \<lparr> gm_launcher_id = PyStr ''g1'', gm_sender_id = PyStr ''u1'',
         gm_message_chain = PyStr ''hello'', gm_sender_name = Some (PyStr ''Alice''),
         gm_query = PyNone \<rparr>
       \<lparr> commit_result = Some (BackendError ''database is locked''), utcnow = 7 \<rparr>)) =
       [Log INFO ''Database tables created successfully'' None,
        Log INFO ''Chat Logger Plugin initialized with database: '' None,
        Log INFO ''Group whitelist: '' None,
        Log INFO ''Group blacklist: '' None,
        Log INFO ''Include bot messages: '' None,
        Log ERROR ''Failed to save chat record: ''
          (Some (BackendError ''database is locked''))]
   \<and> table (snd (on_group_message_received init_plugin
       \<lparr> gm_launcher_id = PyStr ''g1'', gm_sender_id = PyStr ''u1'',
         gm_message_chain = PyStr ''hello'', gm_sender_name = Some (PyStr ''Alice''),
         gm_query = PyNone \<rparr>
       \<lparr> commit_result = None, utcnow = 9 \<rparr>)) = []
   \<and> logged (snd (on_group_message_received init_plugin
       \<lparr> gm_launcher_id = PyStr ''g1'', gm_sender_id = PyStr ''u1'',
         gm_message_chain = PyStr ''hello'', gm_sender_name = Some (PyStr ''Alice''),
         gm_query = PyNone \<rparr>
       \<lparr> commit_result = None, utcnow = 9 \<rparr>)) =
       [Log WARNING ''Database not initialized, skipping record save'' None]
   \<and> table (run (snd (initialize init_plugin
          \<lparr> cfg_database_url = None, cfg_database_name = None,
            cfg_include_bot_messages = None, cfg_group_whitelist = None,
            cfg_group_blacklist = None \<rparr>
          \<lparr> create_engine_result = None, create_all_result = None \<rparr>))
       [GroupMessage
          \<lparr> gm_launcher_id = PyStr ''g1'', gm_sender_id = PyStr ''u1'',
         gm_message_chain = PyStr ''hello'', gm_sender_name = Some (PyStr ''Alice''),
         gm_query = PyNone \<rparr>
          \<lparr> commit_result = Some (BackendError ''database is locked''), utcnow = 7 \<rparr>,
        GroupMessage
          \<lparr> gm_launcher_id = PyStr ''g1'', gm_sender_id = PyStr ''u1'',
         gm_message_chain = PyStr ''hello'', gm_sender_name = Some (PyStr ''Alice''),
         gm_query = PyNone \<rparr>
          \<lparr> commit_result = None, utcnow = 9 \<rparr>]) =
     [\<lparr> user_id = ''u1'', nickname = PyStr ''Alice'', message = PyStr ''hello'',
        group_id = ''g1'', is_bot_message = False, timestamp = 9 \<rparr>]"
proof -
  let ?s = "(snd (initialize init_plugin
          \<lparr> cfg_database_url = None, cfg_database_name = None,
            cfg_include_bot_messages = None, cfg_group_whitelist = None,
            cfg_group_blacklist = None \<rparr>
          \<lparr> create_engine_result = None, create_all_result = None \<rparr>))"
  let ?ev = "\<lparr> gm_launcher_id = PyStr ''g1'', gm_sender_id = PyStr ''u1'',
         gm_message_chain = PyStr ''hello'', gm_sender_name = Some (PyStr ''Alice''),
         gm_query = PyNone \<rparr>"
  let ?fail = "\<lparr> commit_result = Some (BackendError ''database is locked''), utcnow = 7 \<rparr>"
  let ?ok = "\<lparr> commit_result = None, utcnow = 9 \<rparr>"
  let ?ex = "BackendError ''database is locked''"
  let ?l = "logged ?s @ [Log ERROR ''Failed to save chat record: '' (Some ?ex)]"
  have elig: "should_log_group ?s (gm_launcher_id ?ev) \<and>
       extract_message_text (gm_message_chain ?ev) = Inr (PyStr ''hello'') \<and>
       strip_nonempty (PyStr ''hello'') = Inr True"
    by (simp add: ready_plugin should_log_group_def extract_hello strip_hello)
  have elig0: "should_log_group init_plugin (gm_launcher_id ?ev) \<and>
       extract_message_text (gm_message_chain ?ev) = Inr (PyStr ''hello'') \<and>
       strip_nonempty (PyStr ''hello'') = Inr True"
    by (simp add: init_plugin_def should_log_group_def extract_hello strip_hello)
  have sf: "session_factory ?s \<noteq> None \<and> commit_result ?fail = Some ?ex"
    by (simp add: ready_plugin)
  have sf0: "session_factory init_plugin = None"
    by (simp add: init_plugin_def)
  note th = failed_append_is_contained [of ?s ?ev ?fail _ _ _ _ _ _ ?ex "PyStr ''hello''"]
  note th0 = failed_append_is_contained [of init_plugin ?ev ?ok _ _ _ _ _ _ _ "PyStr ''hello''"]
  have a: "fst (on_group_message_received ?s ?ev ?fail) = None"
    using th by blast
  have b: "snd (on_group_message_received ?s ?ev ?fail) = ?s\<lparr>logged := ?l\<rparr>"
    using th elig sf by blast
  have c: "snd (on_group_message_received init_plugin ?ev ?ok) =
     init_plugin\<lparr>logged := logged init_plugin @
        [Log WARNING ''Database not initialized, skipping record save'' None]\<rparr>"
    using th0 elig0 sf0 by blast
  have "table (run ?s [GroupMessage ?ev ?fail, GroupMessage ?ev ?ok]) =
     table (run (?s\<lparr>logged := ?l\<rparr>) [GroupMessage ?ev ?ok])"
    using b by simp
  also have "\<dots> = table (run ?s [GroupMessage ?ev ?ok])"
    using failed_append_is_contained [of ?s _ _ _ _ _ _ _ _ _ _ _ ?l "[GroupMessage ?ev ?ok]"]
    by blast
  also have "\<dots> = [\<lparr> user_id = ''u1'', nickname = PyStr ''Alice'', message = PyStr ''hello'',
        group_id = ''g1'', is_bot_message = False, timestamp = 9 \<rparr>]"
    by (simp add: table_on_group_message_received ready_plugin extract_hello strip_hello
        should_log_group_def get_nickname_def)
  finally have d: "table (run ?s [GroupMessage ?ev ?fail, GroupMessage ?ev ?ok]) =
     [\<lparr> user_id = ''u1'', nickname = PyStr ''Alice'', message = PyStr ''hello'',
        group_id = ''g1'', is_bot_message = False, timestamp = 9 \<rparr>]" .
  have b1: "table (snd (on_group_message_received ?s ?ev ?fail)) = []"
    using b by (simp add: ready_plugin)
  have b2: "logged (snd (on_group_message_received ?s ?ev ?fail)) =
       [Log INFO ''Database tables created successfully'' None,
        Log INFO ''Chat Logger Plugin initialized with database: '' None,
        Log INFO ''Group whitelist: '' None,
        Log INFO ''Group blacklist: '' None,
        Log INFO ''Include bot messages: '' None,
        Log ERROR ''Failed to save chat record: '' (Some ?ex)]"
    using b by (simp add: ready_plugin)
  have c1: "table (snd (on_group_message_received init_plugin ?ev ?ok)) = []"
    "logged (snd (on_group_message_received init_plugin ?ev ?ok)) =
       [Log WARNING ''Database not initialized, skipping record save'' None]"
    using c by (simp_all add: init_plugin_def)
  show ?thesis using a b1 b2 c1 d by simp
qed

text \<open>
  The warning is tied to the session factory, not to a successful initialization.
  When \<^verbatim>\<open>initialize\<close> fails inside \<^verbatim>\<open>engine.begin()\<close> the session factory is already
  set: an event that arrives then is stored if the backend accepts it, and nothing
  but the \<^verbatim>\<open>DEBUG\<close> entry of a successful save is logged.
\<close>

theorem failed_append_is_contained_counterexample:
  "fst (initialize init_plugin
     \<lparr> cfg_database_url = None, cfg_database_name = None,
            cfg_include_bot_messages = None, cfg_group_whitelist = None,
            cfg_group_blacklist = None \<rparr>
     \<lparr> create_engine_result = None,
            create_all_result = Some (BackendError ''disk full'') \<rparr>) = Some (BackendError ''disk full'')
   \<and> table (snd (on_group_message_received
       (snd (initialize init_plugin
          \<lparr> cfg_database_url = None, cfg_database_name = None,
            cfg_include_bot_messages = None, cfg_group_whitelist = None,
            cfg_group_blacklist = None \<rparr>
          \<lparr> create_engine_result = None,
            create_all_result = Some (BackendError ''disk full'') \<rparr>))
       \<lparr> gm_launcher_id = PyStr ''g1'', gm_sender_id = PyStr ''u1'',
         gm_message_chain = PyStr ''hello'', gm_sender_name = Some (PyStr ''Alice''),
         gm_query = PyNone \<rparr>
       \<lparr> commit_result = None, utcnow = 9 \<rparr>)) =
     [\<lparr> user_id = ''u1'', nickname = PyStr ''Alice'', message = PyStr ''hello'',
        group_id = ''g1'', is_bot_message = False, timestamp = 9 \<rparr>]
   \<and> logged (snd (on_group_message_received
       (snd (initialize init_plugin
          \<lparr> cfg_database_url = None, cfg_database_name = None,
            cfg_include_bot_messages = None, cfg_group_whitelist = None,
            cfg_group_blacklist = None \<rparr>
          \<lparr> create_engine_result = None,
            create_all_result = Some (BackendError ''disk full'') \<rparr>))
       \<lparr> gm_launcher_id = PyStr ''g1'', gm_sender_id = PyStr ''u1'',
         gm_message_chain = PyStr ''hello'', gm_sender_name = Some (PyStr ''Alice''),
         gm_query = PyNone \<rparr>
       \<lparr> commit_result = None, utcnow = 9 \<rparr>)) =
     [Log ERROR ''Database initialization failed: '' (Some (BackendError ''disk full'')),
      Log ERROR ''Failed to initialize Chat Logger Plugin: ''
        (Some (BackendError ''disk full'')),
      Log DEBUG ''Saved chat record from user '' None]"
  by (simp add: half_initialized_plugin on_group_message_received_def group_message_body_def
      extract_hello strip_hello should_log_group_def get_nickname_def save_chat_record_def
      log_to_def)

section \<open>What the table holds\<close>

lemma table_initialize [simp]: "table (snd (initialize s cfg env)) = table s"
  by (simp add: initialize_def init_database_def load_config_def Let_def
      split: option.splits prod.splits)

lemma table_destroy [simp]: "table (snd (destroy s d)) = table s"
  by (simp add: destroy_def Let_def split: option.splits)

lemma step_table_extends:
  "\<exists>rows. table (snd (step s a)) = table s @ rows \<and>
          list_all (\<lambda>r. strip_nonempty (message r) = Inr True) rows"
proof (cases a)
  case (Initialize cfg env)
  then show ?thesis by simp
next
  case (GroupMessage event env)
  then show ?thesis
    by (auto simp: table_on_group_message_received split: sum.splits)
next
  case (BotResponse event env)
  then show ?thesis
    by (auto simp: table_on_normal_message_responded split: sum.splits)
next
  case (Destroy d)
  then show ?thesis by simp
qed

lemma run_table_extends:
  "\<exists>rows. table (run s acts) = table s @ rows \<and>
          list_all (\<lambda>r. strip_nonempty (message r) = Inr True) rows"
proof (induction acts arbitrary: s)
  case Nil
  then show ?case by simp
next
  case (Cons a acts)
  obtain rows1 where r1: "table (snd (step s a)) = table s @ rows1"
      "list_all (\<lambda>r. strip_nonempty (message r) = Inr True) rows1"
    using step_table_extends by blast
  obtain rows2 where r2: "table (run (snd (step s a)) acts) = table (snd (step s a)) @ rows2"
      "list_all (\<lambda>r. strip_nonempty (message r) = Inr True) rows2"
    using Cons.IH by blast
  have "table (run s (a # acts)) = table s @ (rows1 @ rows2)"
    using r1 r2 by simp
  moreover have "list_all (\<lambda>r. strip_nonempty (message r) = Inr True) (rows1 @ rows2)"
    using r1 r2 by simp
  ultimately show ?case by blast
qed

lemma nonblank_text:
  "strip_nonempty (message r) = Inr True \<Longrightarrow>
     strip_nonempty (message r) = Inr True \<and>
     (\<forall>t. message r = PyStr t \<longrightarrow> t \<noteq> [] \<and> \<not> list_all is_space t)"
  by (auto simp: py_strip_Nil_iff)

text \<open>
  C6. Over every sequence of calls (initializations, group messages, bot responses
  and shutdowns, with any events and any answers of the backend), started in any
  state, the rows already in the table stay as they are, and every row added has a
  message that passed the emptiness test, that is, one whose \<^verbatim>\<open>strip()\<close> is truthy;
  a message that is a \<^verbatim>\<open>str\<close> is therefore neither empty nor made of whitespace
  only.
\<close>

theorem stored_messages_nonblank:
  "take (length (table s)) (table (run s acts)) = table s
   \<and> list_all
       (\<lambda>r. strip_nonempty (message r) = Inr True \<and>
            (\<forall>t. message r = PyStr t \<longrightarrow> t \<noteq> [] \<and> \<not> list_all is_space t))
       (drop (length (table s)) (table (run s acts)))"
proof -
  obtain rows where r: "table (run s acts) = table s @ rows"
      "list_all (\<lambda>r. strip_nonempty (message r) = Inr True) rows"
    using run_table_extends by blast
  have "list_all
       (\<lambda>r. strip_nonempty (message r) = Inr True \<and>
            (\<forall>t. message r = PyStr t \<longrightarrow> t \<noteq> [] \<and> \<not> list_all is_space t)) rows"
    using r(2) nonblank_text unfolding list_all_iff by blast
  with r(1) show ?thesis by simp
qed


theorem stored_messages_nonblank_witness:
  "list_all
     (\<lambda>r. strip_nonempty (message r) = Inr True \<and>
          (\<forall>t. message r = PyStr t \<longrightarrow> t \<noteq> [] \<and> \<not> list_all is_space t))
     (table (run init_plugin
        [Initialize
           \<lparr> cfg_database_url = None, cfg_database_name = None,
             cfg_include_bot_messages = None, cfg_group_whitelist = None,
             cfg_group_blacklist = None \<rparr>
           \<lparr> create_engine_result = None, create_all_result = None \<rparr>,
         GroupMessage
           \<lparr> gm_launcher_id = PyStr ''g1'', gm_sender_id = PyStr ''u1'',
             gm_message_chain = PyStr ''   '', gm_sender_name = None, gm_query = PyNone \<rparr>
           \<lparr> commit_result = None, utcnow = 1 \<rparr>,
         GroupMessage
           \<lparr> gm_launcher_id = PyStr ''g1'', gm_sender_id = PyStr ''u1'',
             gm_message_chain = PyStr ''hello'', gm_sender_name = None, gm_query = PyNone \<rparr>
           \<lparr> commit_result = None, utcnow = 2 \<rparr>]))
   \<and> length (table (run init_plugin
        [Initialize
           \<lparr> cfg_database_url = None, cfg_database_name = None,
             cfg_include_bot_messages = None, cfg_group_whitelist = None,
             cfg_group_blacklist = None \<rparr>
           \<lparr> create_engine_result = None, create_all_result = None \<rparr>,
         GroupMessage
           \<lparr> gm_launcher_id = PyStr ''g1'', gm_sender_id = PyStr ''u1'',
             gm_message_chain = PyStr ''   '', gm_sender_name = None, gm_query = PyNone \<rparr>
           \<lparr> commit_result = None, utcnow = 1 \<rparr>,
         GroupMessage
           \<lparr> gm_launcher_id = PyStr ''g1'', gm_sender_id = PyStr ''u1'',
             gm_message_chain = PyStr ''hello'', gm_sender_name = None, gm_query = PyNone \<rparr>
           \<lparr> commit_result = None, utcnow = 2 \<rparr>])) = 1"
proof -
  let ?acts = "[Initialize
           \<lparr> cfg_database_url = None, cfg_database_name = None,
             cfg_include_bot_messages = None, cfg_group_whitelist = None,
             cfg_group_blacklist = None \<rparr>
           \<lparr> create_engine_result = None, create_all_result = None \<rparr>,
         GroupMessage
           \<lparr> gm_launcher_id = PyStr ''g1'', gm_sender_id = PyStr ''u1'',
             gm_message_chain = PyStr ''   '', gm_sender_name = None, gm_query = PyNone \<rparr>
           \<lparr> commit_result = None, utcnow = 1 \<rparr>,
         GroupMessage
           \<lparr> gm_launcher_id = PyStr ''g1'', gm_sender_id = PyStr ''u1'',
             gm_message_chain = PyStr ''hello'', gm_sender_name = None, gm_query = PyNone \<rparr>
           \<lparr> commit_result = None, utcnow = 2 \<rparr>]"
  have t0: "table init_plugin = []" by (simp add: init_plugin_def)
  have a: "list_all
     (\<lambda>r. strip_nonempty (message r) = Inr True \<and>
          (\<forall>t. message r = PyStr t \<longrightarrow> t \<noteq> [] \<and> \<not> list_all is_space t))
     (table (run init_plugin ?acts))"
    using stored_messages_nonblank [of init_plugin ?acts] t0 by simp
  have blank: "py_strip ''   '' = []" by (simp add: py_strip_def is_space_def)
  have ex: "extract_message_text (PyStr ''   '') = Inr (PyStr ''   '')"
    by (simp add: extract_message_text_def)
  have skip: "\<And>s env. snd (on_group_message_received s
           \<lparr> gm_launcher_id = PyStr ''g1'', gm_sender_id = PyStr ''u1'',
             gm_message_chain = PyStr ''   '', gm_sender_name = None, gm_query = PyNone \<rparr>
           env) = s"
    by (simp add: on_group_message_received_def group_message_body_def blank ex)
  have b: "length (table (run init_plugin ?acts)) = 1"
    by (simp add: skip table_on_group_message_received ready_plugin extract_hello strip_hello
        should_log_group_def)
  show ?thesis using a b by simp
qed

text \<open>
  Nothing makes \<open>user_id\<close> or \<open>group_id\<close> non-empty: they are the string forms of the
  ids the event carries. A group message whose sender id and launcher id are the
  empty string, and a bot response whose adapter has the empty string as
  \<^verbatim>\<open>bot_account_id\<close>, are stored with empty fields.
\<close>

theorem stored_messages_nonblank_counterexample:
  "table (snd (on_group_message_received
       (snd (initialize init_plugin
          \<lparr> cfg_database_url = None, cfg_database_name = None,
            cfg_include_bot_messages = None, cfg_group_whitelist = None,
            cfg_group_blacklist = None \<rparr>
          \<lparr> create_engine_result = None, create_all_result = None \<rparr>))
       \<lparr> gm_launcher_id = PyStr [], gm_sender_id = PyStr [],
         gm_message_chain = PyStr ''hello'', gm_sender_name = None, gm_query = PyNone \<rparr>
       \<lparr> commit_result = None, utcnow = 7 \<rparr>)) =
     [\<lparr> user_id = [], nickname = PyNone, message = PyStr ''hello'',
        group_id = [], is_bot_message = False, timestamp = 7 \<rparr>]
   \<and> table (snd (on_normal_message_responded
       (snd (initialize init_plugin
          \<lparr> cfg_database_url = None, cfg_database_name = None,
            cfg_include_bot_messages = None, cfg_group_whitelist = None,
            cfg_group_blacklist = None \<rparr>
          \<lparr> create_engine_result = None, create_all_result = None \<rparr>))
       \<lparr> nr_launcher_type = PyStr ''group'', nr_launcher_id = PyStr ''g1'',
         nr_prefix = PyNone, nr_response_text = PyStr ''hi'',
         nr_query = PyObj ''query''
           [(''adapter'', PyObj ''adapter'' [(''bot_account_id'', PyStr [])] None)] None \<rparr>
       \<lparr> commit_result = None, utcnow = 8 \<rparr>)) =
     [\<lparr> user_id = [], nickname = PyStr ''LangBot'', message = PyStr ''hi'',
        group_id = ''g1'', is_bot_message = True, timestamp = 8 \<rparr>]"
proof -
  have "py_strip ''hi'' \<noteq> []" by (simp add: py_strip_def is_space_def)
  then show ?thesis
    by (simp add: table_on_group_message_received table_on_normal_message_responded
        ready_plugin extract_hello strip_hello should_log_group_def get_nickname_def
        get_bot_user_id_def build_full_response_def add_if_truthy_def)
qed

section \<open>The stored text is the extracted text\<close>

text \<open>
  C10. When the text extracted from a group message is \<open>t\<close>, the messages in the
  table after the handler are those before it, followed by \<open>t\<close> itself, untrimmed,
  exactly when \<open>t\<close> passes the emptiness test and the row is stored, and by nothing
  otherwise. The same holds for a bot response and its full response, which is the
  prefix followed by the response text. \<^verbatim>\<open>strip()\<close> only decides whether the text is
  empty.
\<close>

theorem stored_message_not_trimmed:
  "(extract_message_text (gm_message_chain event) = Inr (PyStr t) \<longrightarrow>
      map message (table (snd (on_group_message_received s event env))) =
        map message (table s) @
          (if py_strip t \<noteq> [] \<and> should_log_group s (gm_launcher_id event) \<and>
              session_factory s \<noteq> None \<and> commit_result env = None
           then [PyStr t] else []))
   \<and> (build_full_response bot_event = Inr full_response \<longrightarrow>
      map message (table (snd (on_normal_message_responded s bot_event env))) =
        map message (table s) @
          (if py_strip full_response \<noteq> [] \<and> include_bot_messages s \<and>
              nr_launcher_type bot_event = PyStr ''group'' \<and>
              should_log_group s (nr_launcher_id bot_event) \<and>
              session_factory s \<noteq> None \<and> commit_result env = None
           then [PyStr full_response] else []))
   \<and> (nr_prefix bot_event = PyStr p \<and> nr_response_text bot_event = PyStr r \<longrightarrow>
        build_full_response bot_event = Inr (p @ r))"
proof (intro conjI impI)
  assume "extract_message_text (gm_message_chain event) = Inr (PyStr t)"
  then show "map message (table (snd (on_group_message_received s event env))) =
        map message (table s) @
          (if py_strip t \<noteq> [] \<and> should_log_group s (gm_launcher_id event) \<and>
              session_factory s \<noteq> None \<and> commit_result env = None
           then [PyStr t] else [])"
    by (simp add: table_on_group_message_received)
next
  assume "build_full_response bot_event = Inr full_response"
  then show "map message (table (snd (on_normal_message_responded s bot_event env))) =
        map message (table s) @
          (if py_strip full_response \<noteq> [] \<and> include_bot_messages s \<and>
              nr_launcher_type bot_event = PyStr ''group'' \<and>
              should_log_group s (nr_launcher_id bot_event) \<and>
              session_factory s \<noteq> None \<and> commit_result env = None
           then [PyStr full_response] else [])"
    by (simp add: table_on_normal_message_responded)
next
  assume "nr_prefix bot_event = PyStr p \<and> nr_response_text bot_event = PyStr r"
  then show "build_full_response bot_event = Inr (p @ r)"
    by (simp add: build_full_response_cases)
qed


theorem stored_message_not_trimmed_witness:
  "map message (table (snd (on_group_message_received
       (snd (initialize init_plugin
          \<lparr> cfg_database_url = None, cfg_database_name = None,
            cfg_include_bot_messages = None, cfg_group_whitelist = None,
            cfg_group_blacklist = None \<rparr>
          \<lparr> create_engine_result = None, create_all_result = None \<rparr>))
       \<lparr> gm_launcher_id = PyStr ''g1'', gm_sender_id = PyStr ''u1'',
         gm_message_chain = PyStr ''  hi  '', gm_sender_name = None, gm_query = PyNone \<rparr>
       \<lparr> commit_result = None, utcnow = 7 \<rparr>))) = [PyStr ''  hi  '']
   \<and> py_strip ''  hi  '' = ''hi''
   \<and> map message (table (snd (on_normal_message_responded
       (snd (initialize init_plugin
          \<lparr> cfg_database_url = None, cfg_database_name = None,
            cfg_include_bot_messages = None, cfg_group_whitelist = None,
            cfg_group_blacklist = None \<rparr>
          \<lparr> create_engine_result = None, create_all_result = None \<rparr>))
       \<lparr> nr_launcher_type = PyStr ''group'', nr_launcher_id = PyStr ''g1'',
         nr_prefix = PyStr '' [bot] '', nr_response_text = PyStr ''hi '',
         nr_query = PyNone \<rparr>
       \<lparr> commit_result = None, utcnow = 8 \<rparr>))) = [PyStr '' [bot] hi '']"
proof -
  let ?s = "(snd (initialize init_plugin
          \<lparr> cfg_database_url = None, cfg_database_name = None,
            cfg_include_bot_messages = None, cfg_group_whitelist = None,
            cfg_group_blacklist = None \<rparr>
          \<lparr> create_engine_result = None, create_all_result = None \<rparr>))"
  let ?ev = "\<lparr> gm_launcher_id = PyStr ''g1'', gm_sender_id = PyStr ''u1'',
         gm_message_chain = PyStr ''  hi  '', gm_sender_name = None, gm_query = PyNone \<rparr>"
  let ?bev = "\<lparr> nr_launcher_type = PyStr ''group'', nr_launcher_id = PyStr ''g1'',
         nr_prefix = PyStr '' [bot] '', nr_response_text = PyStr ''hi '',
         nr_query = PyNone \<rparr>"
  let ?env7 = "\<lparr> commit_result = None, utcnow = 7 \<rparr>"
  let ?env8 = "\<lparr> commit_result = None, utcnow = 8 \<rparr>"
  have ex: "extract_message_text (gm_message_chain ?ev) = Inr (PyStr ''  hi  '')"
    by (simp add: extract_message_text_def)
  have st: "py_strip ''  hi  '' = ''hi''"
    by (simp add: py_strip_def is_space_def)
  have st2: "py_strip ('' [bot] '' @ ''hi '') \<noteq> []"
    by (simp add: py_strip_def is_space_def)
  have ok: "should_log_group ?s (PyStr ''g1'')" "session_factory ?s \<noteq> None"
    "include_bot_messages ?s" "table ?s = []"
    by (simp_all add: ready_plugin should_log_group_def)
  note th = stored_message_not_trimmed
    [of ?ev "''  hi  ''" ?s ?env7 ?bev "'' [bot] '' @ ''hi ''" "'' [bot] ''" "''hi ''"]
  note th' = stored_message_not_trimmed
    [of ?ev "''  hi  ''" ?s ?env8 ?bev "'' [bot] '' @ ''hi ''" "'' [bot] ''" "''hi ''"]
  have a: "map message (table (snd (on_group_message_received ?s ?ev ?env7))) = [PyStr ''  hi  '']"
    using th ex st ok by simp
  have full: "build_full_response ?bev = Inr ('' [bot] '' @ ''hi '')"
    using th' by simp
  have b: "map message (table (snd (on_normal_message_responded ?s ?bev ?env8))) =
     [PyStr '' [bot] hi '']"
    using th' full st2 ok by simp
  show ?thesis using a b st by simp
qed

section \<open>Initialization\<close>

lemma initialize_engine_fails:
  "create_engine_result env = Some e \<Longrightarrow>
     initialize s cfg env =
       (Some e,
        log_to (log_to (load_config s cfg) ERROR ''Database initialization failed: '' (Some e))
          ERROR ''Failed to initialize Chat Logger Plugin: '' (Some e))"
  by (simp add: initialize_def init_database_def)

lemma initialize_create_all_fails:
  "create_engine_result env = None \<Longrightarrow> create_all_result env = Some e \<Longrightarrow>
     initialize s cfg env =
       (Some e,
        log_to
          (log_to
             ((load_config s cfg)
                \<lparr>engine := Some (database_url (load_config s cfg)),
                 session_factory := Some (database_url (load_config s cfg))\<rparr>)
             ERROR ''Database initialization failed: '' (Some e))
          ERROR ''Failed to initialize Chat Logger Plugin: '' (Some e))"
  by (simp add: initialize_def init_database_def Let_def)

lemma fst_initialize:
  "fst (initialize s cfg env) =
     (case create_engine_result env of Some e \<Rightarrow> Some e | None \<Rightarrow> create_all_result env)"
  by (simp add: initialize_def init_database_def Let_def split: option.splits)

lemma session_factory_load_config [simp]:
  "session_factory (load_config s cfg) = session_factory s"
  by (simp add: load_config_def)

lemma engine_load_config [simp]: "engine (load_config s cfg) = engine s"
  by (simp add: load_config_def)

lemma table_load_config [simp]: "table (load_config s cfg) = table s"
  by (simp add: load_config_def)

lemma step_raises_only_initialize:
  "fst (step s a) \<noteq> None \<Longrightarrow> \<exists>cfg env. a = Initialize cfg env"
  by (cases a) simp_all

lemma session_factory_save_chat_record [simp]:
  "session_factory (save_chat_record s env uid nick msg gid is_bot) = session_factory s"
  by (simp add: save_chat_record_def log_to_def split: option.splits)

lemma session_factory_on_group_message_received [simp]:
  "session_factory (snd (on_group_message_received s event env)) = session_factory s"
  by (simp add: on_group_message_received_def group_message_body_def
      split: sum.splits pyval.splits)

lemma session_factory_on_normal_message_responded [simp]:
  "session_factory (snd (on_normal_message_responded s event env)) = session_factory s"
  by (simp add: on_normal_message_responded_def normal_message_body_def split: sum.splits)

lemma session_factory_destroy [simp]:
  "session_factory (snd (destroy s d)) = session_factory s"
  by (simp add: destroy_def Let_def log_to_def split: option.splits)

lemma step_without_session_factory:
  "\<forall>cfg env. a \<noteq> Initialize cfg env \<Longrightarrow> session_factory s = None \<Longrightarrow>
     session_factory (snd (step s a)) = None \<and> table (snd (step s a)) = table s"
  by (cases a)
     (simp_all add: table_on_group_message_received table_on_normal_message_responded
        split: sum.splits pyval.splits)

lemma run_without_session_factory:
  "list_all (\<lambda>a. \<forall>cfg env. a \<noteq> Initialize cfg env) acts \<Longrightarrow> session_factory s = None \<Longrightarrow>
     table (run s acts) = table s"
proof (induction acts arbitrary: s)
  case Nil
  then show ?case by simp
next
  case (Cons a acts)
  then have "session_factory (snd (step s a)) = None \<and> table (snd (step s a)) = table s"
    using step_without_session_factory [of a s] by simp
  with Cons show ?case by simp
qed


text \<open>
  C8. \<^verbatim>\<open>initialize\<close> raises exactly when the backend fails, while the engine is
  created or while the tables are created, and it raises the backend's exception,
  having logged it. When the engine cannot be created the engine and the session
  factory stay as they were, so that a plugin without a session factory stores
  nothing in any later sequence of handler and shutdown calls. No call other than
  \<^verbatim>\<open>initialize\<close> lets an exception reach the host.
\<close>

theorem initialize_failure_propagates:
  "(create_engine_result env = Some e \<longrightarrow>
      fst (initialize s cfg env) = Some e \<and>
      engine (snd (initialize s cfg env)) = engine s \<and>
      session_factory (snd (initialize s cfg env)) = session_factory s)
   \<and> (create_engine_result env = None \<and> create_all_result env = Some e \<longrightarrow>
        fst (initialize s cfg env) = Some e)
   \<and> (fst (initialize s cfg env) = None \<longleftrightarrow>
        create_engine_result env = None \<and> create_all_result env = None)
   \<and> (fst (initialize s cfg env) = Some e \<longrightarrow>
        last (logged (snd (initialize s cfg env))) =
          Log ERROR ''Failed to initialize Chat Logger Plugin: '' (Some e))
   \<and> (create_engine_result env = Some e \<and> session_factory s = None \<and>
       list_all (\<lambda>a. \<forall>cfg env. a \<noteq> Initialize cfg env) acts \<longrightarrow>
        table (run (snd (initialize s cfg env)) acts) = table s)
   \<and> (fst (step s a) \<noteq> None \<longrightarrow> (\<exists>cfg env. a = Initialize cfg env))"
proof (intro conjI impI)
  assume a: "create_engine_result env = Some e"
  then show "fst (initialize s cfg env) = Some e"
    by (simp add: initialize_engine_fails)
  from a show "engine (snd (initialize s cfg env)) = engine s"
    by (simp add: initialize_engine_fails)
  from a show "session_factory (snd (initialize s cfg env)) = session_factory s"
    by (simp add: initialize_engine_fails)
next
  assume "create_engine_result env = None \<and> create_all_result env = Some e"
  then show "fst (initialize s cfg env) = Some e"
    by (simp add: fst_initialize)
next
  show "fst (initialize s cfg env) = None \<longleftrightarrow>
        create_engine_result env = None \<and> create_all_result env = None"
    by (simp add: fst_initialize split: option.splits)
next
  assume "fst (initialize s cfg env) = Some e"
  then show "last (logged (snd (initialize s cfg env))) =
          Log ERROR ''Failed to initialize Chat Logger Plugin: '' (Some e)"
    by (auto simp: fst_initialize initialize_engine_fails initialize_create_all_fails log_to_def
        split: option.splits)
next
  assume a: "create_engine_result env = Some e \<and> session_factory s = None \<and>
       list_all (\<lambda>a. \<forall>cfg env. a \<noteq> Initialize cfg env) acts"
  then have "session_factory (snd (initialize s cfg env)) = None"
    by (simp add: initialize_engine_fails)
  with a have "table (run (snd (initialize s cfg env)) acts) = table (snd (initialize s cfg env))"
    by (simp add: run_without_session_factory)
  then show "table (run (snd (initialize s cfg env)) acts) = table s"
    by simp
next
  assume "fst (step s a) \<noteq> None"
  then show "\<exists>cfg env. a = Initialize cfg env"
    by (rule step_raises_only_initialize)
qed


theorem initialize_failure_propagates_witness:
  "fst (initialize init_plugin
     \<lparr> cfg_database_url = None, cfg_database_name = None,
            cfg_include_bot_messages = None, cfg_group_whitelist = None,
            cfg_group_blacklist = None \<rparr>
     \<lparr> create_engine_result = Some (BackendError ''unreachable''),
            create_all_result = None \<rparr>) = Some (BackendError ''unreachable'')
   \<and> session_factory (snd (initialize init_plugin
     \<lparr> cfg_database_url = None, cfg_database_name = None,
            cfg_include_bot_messages = None, cfg_group_whitelist = None,
            cfg_group_blacklist = None \<rparr>
     \<lparr> create_engine_result = Some (BackendError ''unreachable''),
            create_all_result = None \<rparr>)) = None
   \<and> table (run (snd (initialize init_plugin
     \<lparr> cfg_database_url = None, cfg_database_name = None,
            cfg_include_bot_messages = None, cfg_group_whitelist = None,
            cfg_group_blacklist = None \<rparr>
     \<lparr> create_engine_result = Some (BackendError ''unreachable''),
            create_all_result = None \<rparr>))
       [GroupMessage
          \<lparr> gm_launcher_id = PyStr ''g1'', gm_sender_id = PyStr ''u1'',
         gm_message_chain = PyStr ''hello'', gm_sender_name = Some (PyStr ''Alice''),
         gm_query = PyNone \<rparr>
          \<lparr> commit_result = None, utcnow = 7 \<rparr>]) = []
   \<and> fst (initialize init_plugin
     \<lparr> cfg_database_url = None, cfg_database_name = None,
            cfg_include_bot_messages = None, cfg_group_whitelist = None,
            cfg_group_blacklist = None \<rparr>
     \<lparr> create_engine_result = None,
            create_all_result = Some (BackendError ''disk full'') \<rparr>) = Some (BackendError ''disk full'')"
proof -
  let ?cfg = "\<lparr> cfg_database_url = None, cfg_database_name = None,
            cfg_include_bot_messages = None, cfg_group_whitelist = None,
            cfg_group_blacklist = None \<rparr>"
  let ?efail = "\<lparr> create_engine_result = Some (BackendError ''unreachable''),
            create_all_result = None \<rparr>"
  let ?afail = "\<lparr> create_engine_result = None,
            create_all_result = Some (BackendError ''disk full'') \<rparr>"
  let ?acts = "[GroupMessage
          \<lparr> gm_launcher_id = PyStr ''g1'', gm_sender_id = PyStr ''u1'',
         gm_message_chain = PyStr ''hello'', gm_sender_name = Some (PyStr ''Alice''),
         gm_query = PyNone \<rparr>
          \<lparr> commit_result = None, utcnow = 7 \<rparr>]"
  have h: "create_engine_result ?efail = Some (BackendError ''unreachable'')"
    "session_factory init_plugin = None" "table init_plugin = []"
    "list_all (\<lambda>a. \<forall>cfg env. a \<noteq> Initialize cfg env) ?acts"
    by (simp_all add: init_plugin_def)
  note th = initialize_failure_propagates
    [of ?efail "BackendError ''unreachable''" init_plugin ?cfg ?acts]
  have a: "fst (initialize init_plugin ?cfg ?efail) = Some (BackendError ''unreachable'')"
    using th h by blast
  have b: "session_factory (snd (initialize init_plugin ?cfg ?efail)) = None"
    using th h by metis
  have c: "table (run (snd (initialize init_plugin ?cfg ?efail)) ?acts) = []"
    using th h by metis
  have d: "fst (initialize init_plugin ?cfg ?afail) = Some (BackendError ''disk full'')"
    using initialize_failure_propagates [of ?afail "BackendError ''disk full''" init_plugin ?cfg]
    by simp
  show ?thesis using a b c d by simp
qed

text \<open>
  When it is the creation of the tables that fails, the engine and the session
  factory have already been assigned: \<^verbatim>\<open>initialize\<close> raises, yet the next group
  message is stored if the backend accepts it.
\<close>

theorem initialize_failure_propagates_counterexample:
  "fst (initialize init_plugin
     \<lparr> cfg_database_url = None, cfg_database_name = None,
            cfg_include_bot_messages = None, cfg_group_whitelist = None,
            cfg_group_blacklist = None \<rparr>
     \<lparr> create_engine_result = None,
            create_all_result = Some (BackendError ''disk full'') \<rparr>) = Some (BackendError ''disk full'')
   \<and> session_factory (snd (initialize init_plugin
     \<lparr> cfg_database_url = None, cfg_database_name = None,
            cfg_include_bot_messages = None, cfg_group_whitelist = None,
            cfg_group_blacklist = None \<rparr>
     \<lparr> create_engine_result = None,
            create_all_result = Some (BackendError ''disk full'') \<rparr>)) = Some ''sqlite+aiosqlite:///./chat_logs.db''
   \<and> table (snd (on_group_message_received
       (snd (initialize init_plugin
          \<lparr> cfg_database_url = None, cfg_database_name = None,
            cfg_include_bot_messages = None, cfg_group_whitelist = None,
            cfg_group_blacklist = None \<rparr>
          \<lparr> create_engine_result = None,
            create_all_result = Some (BackendError ''disk full'') \<rparr>))
       \<lparr> gm_launcher_id = PyStr ''g1'', gm_sender_id = PyStr ''u1'',
         gm_message_chain = PyStr ''hello'', gm_sender_name = Some (PyStr ''Alice''),
         gm_query = PyNone \<rparr>
       \<lparr> commit_result = None, utcnow = 7 \<rparr>)) =
     [\<lparr> user_id = ''u1'', nickname = PyStr ''Alice'', message = PyStr ''hello'',
        group_id = ''g1'', is_bot_message = False, timestamp = 7 \<rparr>]"
  by (simp add: half_initialized_plugin table_on_group_message_received extract_hello
      strip_hello should_log_group_def get_nickname_def)


section \<open>Shutdown\<close>

lemma destroy_without_engine: "engine s = None \<Longrightarrow> destroy s d = (None, s)"
  by (simp add: destroy_def)

lemma engine_destroy [simp]: "engine (snd (destroy s d)) = engine s"
  by (simp add: destroy_def Let_def log_to_def split: option.splits)

lemma dispose_calls_destroy:
  "dispose_calls (snd (destroy s d)) =
     (if engine s = None then dispose_calls s else Suc (dispose_calls s))"
  by (simp add: destroy_def Let_def log_to_def split: option.splits)

lemma initialize_engine_created:
  "create_engine_result env = None \<Longrightarrow>
     engine (snd (initialize s cfg env)) = Some (database_url (load_config s cfg)) \<and>
     dispose_calls (snd (initialize s cfg env)) = dispose_calls s"
  by (simp add: initialize_def init_database_def load_config_def log_to_def Let_def
      split: option.splits)

text \<open>
  C9. \<^verbatim>\<open>destroy\<close> never raises, on a first call or on a second one. Without an
  engine, which is the case when \<^verbatim>\<open>initialize\<close> was never called or when
  \<^verbatim>\<open>create_async_engine\<close> itself raised, it does nothing at all. With an engine each
  call calls \<^verbatim>\<open>dispose\<close> once, so that two calls in succession call it twice; the
  engine, the session factory and the table are left as they were. The engine
  exists as soon as \<^verbatim>\<open>create_async_engine\<close> has returned, whether or not the block
  \<^verbatim>\<open>engine.begin()\<close>, which connects and creates the tables, then fails.
\<close>

theorem destroy_disposes_when_engine_set:
  "fst (destroy s d) = None
   \<and> fst (destroy (snd (destroy s d)) d') = None
   \<and> (engine s = None \<longrightarrow> destroy s d = (None, s))
   \<and> (engine s = None \<and> create_engine_result env = Some e \<longrightarrow>
        engine (snd (initialize s cfg env)) = None)
   \<and> (create_engine_result env = None \<longrightarrow>
        engine (snd (initialize s cfg env)) \<noteq> None \<and>
        dispose_calls (snd (destroy (snd (initialize s cfg env)) d)) = Suc (dispose_calls s))
   \<and> (engine s \<noteq> None \<longrightarrow>
        dispose_calls (snd (destroy s d)) = Suc (dispose_calls s) \<and>
        dispose_calls (snd (destroy (snd (destroy s d)) d')) = Suc (Suc (dispose_calls s)))
   \<and> engine (snd (destroy s d)) = engine s
   \<and> session_factory (snd (destroy s d)) = session_factory s
   \<and> table (snd (destroy s d)) = table s"
proof (intro conjI impI)
  show "fst (destroy s d) = None" by simp
  show "fst (destroy (snd (destroy s d)) d') = None" by simp
  show "engine (snd (destroy s d)) = engine s" by simp
  show "session_factory (snd (destroy s d)) = session_factory s" by simp
  show "table (snd (destroy s d)) = table s" by simp
next
  assume "engine s = None"
  then show "destroy s d = (None, s)" by (rule destroy_without_engine)
next
  assume "engine s = None \<and> create_engine_result env = Some e"
  then show "engine (snd (initialize s cfg env)) = None"
    by (simp add: initialize_engine_fails)
next
  assume b: "create_engine_result env = None"
  then show "engine (snd (initialize s cfg env)) \<noteq> None"
    by (simp add: initialize_engine_created)
  from b show "dispose_calls (snd (destroy (snd (initialize s cfg env)) d)) =
      Suc (dispose_calls s)"
    by (simp add: dispose_calls_destroy initialize_engine_created)
next
  assume a: "engine s \<noteq> None"
  then show "dispose_calls (snd (destroy s d)) = Suc (dispose_calls s)"
    by (simp add: dispose_calls_destroy)
  from a show "dispose_calls (snd (destroy (snd (destroy s d)) d')) = Suc (Suc (dispose_calls s))"
    by (simp add: dispose_calls_destroy)
qed


theorem destroy_disposes_when_engine_set_witness:
  "destroy init_plugin None = (None, init_plugin)
   \<and> fst (destroy (snd (destroy (snd (initialize init_plugin
          \<lparr> cfg_database_url = None, cfg_database_name = None,
            cfg_include_bot_messages = None, cfg_group_whitelist = None,
            cfg_group_blacklist = None \<rparr>
          \<lparr> create_engine_result = None, create_all_result = None \<rparr>)) None)) None) = None
   \<and> dispose_calls (snd (destroy (snd (initialize init_plugin
          \<lparr> cfg_database_url = None, cfg_database_name = None,
            cfg_include_bot_messages = None, cfg_group_whitelist = None,
            cfg_group_blacklist = None \<rparr>
          \<lparr> create_engine_result = None, create_all_result = None \<rparr>)) None)) = 1"
proof -
  let ?s = "(snd (initialize init_plugin
          \<lparr> cfg_database_url = None, cfg_database_name = None,
            cfg_include_bot_messages = None, cfg_group_whitelist = None,
            cfg_group_blacklist = None \<rparr>
          \<lparr> create_engine_result = None, create_all_result = None \<rparr>))"
  have e0: "engine init_plugin = None" by (simp add: init_plugin_def)
  have e1: "engine ?s \<noteq> None" "dispose_calls ?s = 0" by (simp_all add: ready_plugin)
  have a: "destroy init_plugin None = (None, init_plugin)"
    using destroy_disposes_when_engine_set [of init_plugin None] e0 by blast
  note th = destroy_disposes_when_engine_set [of ?s None None]
  have b: "fst (destroy (snd (destroy ?s None)) None) = None"
    using th by blast
  have "dispose_calls (snd (destroy ?s None)) = Suc (dispose_calls ?s)"
    using th e1 by blast
  then have c: "dispose_calls (snd (destroy ?s None)) = 1"
    using e1 by simp
  show ?thesis using a b c by simp
qed

text \<open>
  The engine is never reset, so a second \<^verbatim>\<open>destroy\<close> disposes it again; and after
  an initialization that failed inside \<^verbatim>\<open>engine.begin()\<close>, while connecting or while
  creating the tables, the engine is set, so \<^verbatim>\<open>destroy\<close> disposes it.
\<close>

theorem destroy_disposes_when_engine_set_counterexample:
  "dispose_calls (snd (destroy (snd (initialize init_plugin
          \<lparr> cfg_database_url = None, cfg_database_name = None,
            cfg_include_bot_messages = None, cfg_group_whitelist = None,
            cfg_group_blacklist = None \<rparr>
          \<lparr> create_engine_result = None, create_all_result = None \<rparr>)) None)) = 1
   \<and> dispose_calls (snd (destroy (snd (destroy (snd (initialize init_plugin
          \<lparr> cfg_database_url = None, cfg_database_name = None,
            cfg_include_bot_messages = None, cfg_group_whitelist = None,
            cfg_group_blacklist = None \<rparr>
          \<lparr> create_engine_result = None, create_all_result = None \<rparr>)) None)) None)) = 2
   \<and> fst (initialize init_plugin
          \<lparr> cfg_database_url = None, cfg_database_name = None,
            cfg_include_bot_messages = None, cfg_group_whitelist = None,
            cfg_group_blacklist = None \<rparr>
          \<lparr> create_engine_result = None,
            create_all_result = Some (BackendError ''disk full'') \<rparr>) = Some (BackendError ''disk full'')
   \<and> dispose_calls (snd (initialize init_plugin
          \<lparr> cfg_database_url = None, cfg_database_name = None,
            cfg_include_bot_messages = None, cfg_group_whitelist = None,
            cfg_group_blacklist = None \<rparr>
          \<lparr> create_engine_result = None,
            create_all_result = Some (BackendError ''disk full'') \<rparr>)) = 0
   \<and> dispose_calls (snd (destroy (snd (initialize init_plugin
          \<lparr> cfg_database_url = None, cfg_database_name = None,
            cfg_include_bot_messages = None, cfg_group_whitelist = None,
            cfg_group_blacklist = None \<rparr>
          \<lparr> create_engine_result = None,
            create_all_result = Some (BackendError ''disk full'') \<rparr>)) None)) = 1"
  by (simp add: dispose_calls_destroy ready_plugin half_initialized_plugin)

end
